theory Spec2Isabelle
  imports Main "HOL-Library.Word"
begin

unbundle bit_operations_syntax

section \<open>Strings and numbers\<close>

text \<open>
  A JavaScript string is modelled by the list of bytes of its UTF-8 encoding (\<open>string\<close>),
  which is what \<open>crypto\<close> hashes and what the database stores. Concatenation of
  well-formed strings is concatenation of their encodings.
\<close>

definition is_digit :: "char \<Rightarrow> bool" where
  "is_digit c = ((48::nat) \<le> of_char c \<and> of_char c \<le> (57::nat))"

definition digit_val :: "char \<Rightarrow> nat" where
  "digit_val c = of_char c - 48"

text \<open>\<open>toInt\<close> on a string of decimal digits.\<close>

definition toInt :: "string \<Rightarrow> nat" where
  "toInt ds = foldl (\<lambda>acc c. 10 * acc + digit_val c) 0 ds"

definition digit_char :: "nat \<Rightarrow> char" where
  "digit_char d = ''0123456789'' ! d"

text \<open>The decimal text of a non-negative integer, as a template literal prints it.\<close>

fun show_nat :: "nat \<Rightarrow> string" where
  "show_nat n = (if n < 10 then [digit_char n] else show_nat (n div 10) @ [digit_char (n mod 10)])"

declare show_nat.simps [simp del]

definition zeroFill :: "nat \<Rightarrow> nat \<Rightarrow> string" where
  "zeroFill width n = replicate (width - length (show_nat n)) (CHR ''0'') @ show_nat n"

text \<open>
  \<open>String.prototype.trim\<close>: the white space and line terminator code points of
  ECMAScript, each given by its UTF-8 encoding (U+0009 to U+000D, U+0020, U+00A0, U+1680,
  U+2000 to U+200A, U+2028, U+2029, U+202F, U+205F, U+3000, U+FEFF).
\<close>

definition ws_codes :: "string list" where
  "ws_codes =
    [[CHR 0x09], [CHR 0x0A], [CHR 0x0B], [CHR 0x0C], [CHR 0x0D], [CHR 0x20],
     [CHR 0xC2, CHR 0xA0], [CHR 0xE1, CHR 0x9A, CHR 0x80],
     [CHR 0xE2, CHR 0x80, CHR 0x80], [CHR 0xE2, CHR 0x80, CHR 0x81],
     [CHR 0xE2, CHR 0x80, CHR 0x82], [CHR 0xE2, CHR 0x80, CHR 0x83],
     [CHR 0xE2, CHR 0x80, CHR 0x84], [CHR 0xE2, CHR 0x80, CHR 0x85],
     [CHR 0xE2, CHR 0x80, CHR 0x86], [CHR 0xE2, CHR 0x80, CHR 0x87],
     [CHR 0xE2, CHR 0x80, CHR 0x88], [CHR 0xE2, CHR 0x80, CHR 0x89],
     [CHR 0xE2, CHR 0x80, CHR 0x8A], [CHR 0xE2, CHR 0x80, CHR 0xA8],
     [CHR 0xE2, CHR 0x80, CHR 0xA9], [CHR 0xE2, CHR 0x80, CHR 0xAF],
     [CHR 0xE2, CHR 0x81, CHR 0x9F], [CHR 0xE3, CHR 0x80, CHR 0x80],
     [CHR 0xEF, CHR 0xBB, CHR 0xBF]]"

text \<open>The length of the code in \<open>codes\<close> that the string starts with, 0 when there is none.\<close>

definition ws_len :: "string list \<Rightarrow> string \<Rightarrow> nat" where
  "ws_len codes s =
     (case List.find (\<lambda>w. take (length w) s = w) codes of None \<Rightarrow> 0 | Some w \<Rightarrow> length w)"

function dropWs :: "string list \<Rightarrow> string \<Rightarrow> string" where
  "dropWs codes s = (if ws_len codes s = 0 then s else dropWs codes (drop (ws_len codes s) s))"
  by pat_completeness auto
termination
proof (relation "measure (\<lambda>(codes, s). length s)")
  show "wf (measure (\<lambda>(codes :: string list, s :: string). length s))"
    by simp
next
  fix codes :: "string list" and s :: string
  assume n: "ws_len codes s \<noteq> 0"
  have "s \<noteq> []"
  proof
    assume "s = []"
    with n show False
      by (auto simp: ws_len_def find_Some_iff split: option.splits)
  qed
  with n show "((codes, drop (ws_len codes s) s), (codes, s)) \<in> measure (\<lambda>(codes, s). length s)"
    by simp
qed

declare dropWs.simps [simp del]

definition js_trim :: "string \<Rightarrow> string" where
  "js_trim s = rev (dropWs (map rev ws_codes) (rev (dropWs ws_codes s)))"

section \<open>SHA-256\<close>

text \<open>
  The digest both \<open>crypto.createHash('sha256')\<close> and PostgreSQL's \<open>sha256\<close> compute
  (FIPS 180-4), on 32-bit words held as natural numbers with the reduction modulo
  \<open>2^32\<close> written out.
\<close>

definition add32 :: "nat \<Rightarrow> nat \<Rightarrow> nat" where
  "add32 x y = (x + y) mod 4294967296"

definition rotr :: "nat \<Rightarrow> nat \<Rightarrow> nat" where
  "rotr n x = x div 2 ^ n + (x mod 2 ^ n) * 2 ^ (32 - n)"

definition Ch :: "nat \<Rightarrow> nat \<Rightarrow> nat \<Rightarrow> nat" where
  "Ch x y z = (x AND y) XOR ((4294967295 - x) AND z)"

definition Maj :: "nat \<Rightarrow> nat \<Rightarrow> nat \<Rightarrow> nat" where
  "Maj x y z = (x AND y) XOR (x AND z) XOR (y AND z)"

definition bsig0 :: "nat \<Rightarrow> nat" where
  "bsig0 x = rotr 2 x XOR rotr 13 x XOR rotr 22 x"

definition bsig1 :: "nat \<Rightarrow> nat" where
  "bsig1 x = rotr 6 x XOR rotr 11 x XOR rotr 25 x"

definition ssig0 :: "nat \<Rightarrow> nat" where
  "ssig0 x = rotr 7 x XOR rotr 18 x XOR x div 2 ^ 3"

definition ssig1 :: "nat \<Rightarrow> nat" where
  "ssig1 x = rotr 17 x XOR rotr 19 x XOR x div 2 ^ 10"

definition K256 :: "nat list" where
  "K256 = [
   0x428A2F98, 0x71374491, 0xB5C0FBCF, 0xE9B5DBA5, 0x3956C25B, 0x59F111F1, 0x923F82A4, 0xAB1C5ED5,
   0xD807AA98, 0x12835B01, 0x243185BE, 0x550C7DC3, 0x72BE5D74, 0x80DEB1FE, 0x9BDC06A7, 0xC19BF174,
   0xE49B69C1, 0xEFBE4786, 0x0FC19DC6, 0x240CA1CC, 0x2DE92C6F, 0x4A7484AA, 0x5CB0A9DC, 0x76F988DA,
   0x983E5152, 0xA831C66D, 0xB00327C8, 0xBF597FC7, 0xC6E00BF3, 0xD5A79147, 0x06CA6351, 0x14292967,
   0x27B70A85, 0x2E1B2138, 0x4D2C6DFC, 0x53380D13, 0x650A7354, 0x766A0ABB, 0x81C2C92E, 0x92722C85,
   0xA2BFE8A1, 0xA81A664B, 0xC24B8B70, 0xC76C51A3, 0xD192E819, 0xD6990624, 0xF40E3585, 0x106AA070,
   0x19A4C116, 0x1E376C08, 0x2748774C, 0x34B0BCB5, 0x391C0CB3, 0x4ED8AA4A, 0x5B9CCA4F, 0x682E6FF3,
   0x748F82EE, 0x78A5636F, 0x84C87814, 0x8CC70208, 0x90BEFFFA, 0xA4506CEB, 0xBEF9A3F7, 0xC67178F2]"

definition H0 :: "nat list" where
  "H0 = [0x6A09E667, 0xBB67AE85, 0x3C6EF372, 0xA54FF53A,
         0x510E527F, 0x9B05688C, 0x1F83D9AB, 0x5BE0CD19]"

fun round256 :: "nat list \<Rightarrow> nat \<Rightarrow> nat \<Rightarrow> nat list" where
  "round256 [a, b, c, d, e, f, g, h] k w =
     (let t1 = add32 (add32 (add32 (add32 h (bsig1 e)) (Ch e f g)) k) w;
          t2 = add32 (bsig0 a) (Maj a b c)
      in [add32 t1 t2, a, b, c, add32 d t1, e, f, g])"
| "round256 s _ _ = s"

text \<open>
  The 64 rounds of one block. The third argument is the window \<open>W(t), ..., W(t+15)\<close> of
  the message schedule, extended by one word per round.
\<close>

fun rounds :: "nat list \<Rightarrow> nat list \<Rightarrow> nat list \<Rightarrow> nat list" where
  "rounds s [] ws = s"
| "rounds s (k # ks) [w0, w1, w2, w3, w4, w5, w6, w7, w8, w9, w10, w11, w12, w13, w14, w15] =
     rounds (round256 s k w0) ks
       [w1, w2, w3, w4, w5, w6, w7, w8, w9, w10, w11, w12, w13, w14, w15,
        add32 (add32 (add32 (ssig1 w14) w9) (ssig0 w1)) w0]"
| "rounds s _ _ = s"

definition compress :: "nat list \<Rightarrow> nat list \<Rightarrow> nat list" where
  "compress hs block = map2 add32 hs (rounds hs K256 block)"

definition be_bytes8 :: "nat \<Rightarrow> nat list" where
  "be_bytes8 n = [n div 2 ^ 56 mod 256, n div 2 ^ 48 mod 256, n div 2 ^ 40 mod 256,
                  n div 2 ^ 32 mod 256, n div 2 ^ 24 mod 256, n div 2 ^ 16 mod 256,
                  n div 2 ^ 8 mod 256, n mod 256]"

definition pad :: "nat list \<Rightarrow> nat list" where
  "pad m = m @ [128] @ replicate ((119 - length m mod 64) mod 64) 0 @ be_bytes8 (8 * length m)"

fun be_words :: "nat list \<Rightarrow> nat list" where
  "be_words (a # b # c # d # r) = (((a * 256 + b) * 256 + c) * 256 + d) # be_words r"
| "be_words _ = []"

fun blocks :: "nat list \<Rightarrow> nat list list" where
  "blocks (w0 # w1 # w2 # w3 # w4 # w5 # w6 # w7 # w8 # w9 # w10 # w11 # w12 # w13 # w14 # w15 # r) =
     [w0, w1, w2, w3, w4, w5, w6, w7, w8, w9, w10, w11, w12, w13, w14, w15] # blocks r"
| "blocks _ = []"

definition sha256 :: "string \<Rightarrow> nat list" where
  "sha256 m = foldl compress H0 (blocks (be_words (pad (map of_char m))))"

definition hex_char :: "nat \<Rightarrow> char" where
  "hex_char n = ''0123456789abcdef'' ! n"

definition hex32 :: "nat \<Rightarrow> string" where
  "hex32 w = map (\<lambda>k. hex_char (w div 16 ^ k mod 16)) [7, 6, 5, 4, 3, 2, 1, 0]"

text \<open>\<open>digest('hex')\<close> in Node and \<open>encode(..., 'hex')\<close> in PostgreSQL: lower-case hex.\<close>

definition sha256_hex :: "string \<Rightarrow> string" where
  "sha256_hex m = concat (map hex32 (sha256 m))"

section \<open>Date normalisation (\<open>processFecha\<close>)\<close>

text \<open>
  The formats of \<open>processFecha\<close>, each as the token list moment.js splits it into:
  \<open>'DD/MM/YYYY'\<close>, \<open>'DD-MM-YYYY'\<close>, \<open>'YYYY-MM-DD'\<close>, \<open>'DD/MM/YY'\<close>, \<open>'DD-MM-YY'\<close>.
\<close>

datatype token = DD | MM | YYYY | YY | Lit char

definition formatos :: "token list list" where
  "formatos =
    [[DD, Lit (CHR ''/''), MM, Lit (CHR ''/''), YYYY],
     [DD, Lit (CHR ''-''), MM, Lit (CHR ''-''), YYYY],
     [YYYY, Lit (CHR ''-''), MM, Lit (CHR ''-''), DD],
     [DD, Lit (CHR ''/''), MM, Lit (CHR ''/''), YY],
     [DD, Lit (CHR ''-''), MM, Lit (CHR ''-''), YY]]"

record fecha_civil =
  anio :: nat
  mes :: nat
  dia :: nat

text \<open>Strict mode: a numeric token takes exactly its number of digits.\<close>

definition match_digits :: "nat \<Rightarrow> string \<Rightarrow> (nat \<times> string) option" where
  "match_digits n s =
     (if n \<le> length s \<and> list_all is_digit (take n s)
      then Some (toInt (take n s), drop n s) else None)"

definition parseTwoDigitYear :: "nat \<Rightarrow> nat" where
  "parseTwoDigitYear v = v + (if 68 < v then 1900 else 2000)"

text \<open>
  \<open>moment(text, format, true)\<close>: every token must match where the previous one ended,
  and no character may be left over.
\<close>

fun parse_tokens :: "token list \<Rightarrow> string \<Rightarrow> fecha_civil \<Rightarrow> fecha_civil option" where
  "parse_tokens [] s a = (if s = [] then Some a else None)"
| "parse_tokens (DD # ts) s a =
     (case match_digits 2 s of None \<Rightarrow> None
      | Some (v, r) \<Rightarrow> parse_tokens ts r (a\<lparr>dia := v\<rparr>))"
| "parse_tokens (MM # ts) s a =
     (case match_digits 2 s of None \<Rightarrow> None
      | Some (v, r) \<Rightarrow> parse_tokens ts r (a\<lparr>mes := v\<rparr>))"
| "parse_tokens (YYYY # ts) s a =
     (case match_digits 4 s of None \<Rightarrow> None
      | Some (v, r) \<Rightarrow> parse_tokens ts r (a\<lparr>anio := v\<rparr>))"
| "parse_tokens (YY # ts) s a =
     (case match_digits 2 s of None \<Rightarrow> None
      | Some (v, r) \<Rightarrow> parse_tokens ts r (a\<lparr>anio := parseTwoDigitYear v\<rparr>))"
| "parse_tokens (Lit c # ts) s a =
     (case s of [] \<Rightarrow> None
      | x # r \<Rightarrow> if x = c then parse_tokens ts r a else None)"

definition isLeapYear :: "nat \<Rightarrow> bool" where
  "isLeapYear y = ((y mod 4 = 0 \<and> y mod 100 \<noteq> 0) \<or> y mod 400 = 0)"

text \<open>\<open>daysInMonth\<close> of moment.js, the month counted from 0.\<close>

definition daysInMonth :: "nat \<Rightarrow> nat \<Rightarrow> nat" where
  "daysInMonth y m =
     (if m = 1 then (if isLeapYear y then 29 else 28) else 31 - (m mod 7) mod 2)"

definition overflow :: "fecha_civil \<Rightarrow> bool" where
  "overflow a =
     (mes a < 1 \<or> 12 < mes a \<or> dia a < 1 \<or> daysInMonth (anio a) (mes a - 1) < dia a)"

text \<open>The parsed date when \<open>isValid()\<close> holds, \<open>None\<close> otherwise.\<close>

definition moment_strict :: "token list \<Rightarrow> string \<Rightarrow> fecha_civil option" where
  "moment_strict formato s =
     (case parse_tokens formato s \<lparr>anio = 0, mes = 0, dia = 0\<rparr> of
        None \<Rightarrow> None
      | Some a \<Rightarrow> if overflow a then None else Some a)"

text \<open>
  \<open>toISOString()\<close> prints the instant of local midnight of the parsed date in UTC, so
  it depends on the time zone of the process; \<open>processFecha\<close> takes it as the parameter
  \<open>render\<close>. \<open>toISOString_utc\<close> is the function for a process whose zone is UTC.
\<close>

definition toISOString_utc :: "fecha_civil \<Rightarrow> string" where
  "toISOString_utc a =
     zeroFill 4 (anio a) @ ''-'' @ zeroFill 2 (mes a) @ ''-'' @ zeroFill 2 (dia a)
       @ ''T00:00:00.000Z''"

fun probar_formatos :: "(fecha_civil \<Rightarrow> string) \<Rightarrow> token list list \<Rightarrow> string \<Rightarrow> string" where
  "probar_formatos render [] fechaTexto = fechaTexto"
| "probar_formatos render (formato # resto) fechaTexto =
     (case moment_strict formato fechaTexto of
        Some fecha \<Rightarrow> render fecha
      | None \<Rightarrow> probar_formatos render resto fechaTexto)"

definition processFecha :: "(fecha_civil \<Rightarrow> string) \<Rightarrow> string \<Rightarrow> string" where
  "processFecha render fechaTexto = probar_formatos render formatos fechaTexto"

section \<open>Result rows of the search page (\<open>extractResultsFromPage\<close>)\<close>

text \<open>
  What the callback of \<open>elementos.forEach\<close> reads from one element of the page: each
  field is \<open>None\<close> when the optional chain \<open>querySelector(...)?.textContent?.trim()\<close>
  (or \<open>?.href\<close>) gives \<open>undefined\<close>.
\<close>

record elemento =
  el_rol :: "string option"
  el_fecha :: "string option"
  el_tribunal :: "string option"
  el_caratulado :: "string option"
  el_enlace :: "string option"

record basicos =
  rol :: string
  fecha :: string
  tribunal :: string
  caratulado :: string
  enlace :: string

record resultado = basicos +
  index :: nat

text \<open>\<open>x || d\<close> on a value that is a string or \<open>undefined\<close>.\<close>

definition js_or :: "string option \<Rightarrow> string \<Rightarrow> string" where
  "js_or x d = (case x of None \<Rightarrow> d | Some s \<Rightarrow> if s = [] then d else s)"

definition truthy :: "string option \<Rightarrow> bool" where
  "truthy x = (case x of None \<Rightarrow> False | Some s \<Rightarrow> s \<noteq> [])"

text \<open>
  The loop over the elements; \<open>now i\<close> is what \<open>Date.now()\<close> returns while the element
  of index \<open>i\<close> is visited. An element is kept when \<open>rol || fecha || tribunal\<close> holds.
\<close>

text \<open>The object pushed for the element of index \<open>i\<close>.\<close>

definition item :: "(nat \<Rightarrow> nat) \<Rightarrow> nat \<Rightarrow> elemento \<Rightarrow> resultado" where
  "item now i e =
     \<lparr>rol = js_or (el_rol e) (''ROL-'' @ show_nat (now i) @ ''-'' @ show_nat i),
      fecha = js_or (el_fecha e) [],
      tribunal = js_or (el_tribunal e) [],
      caratulado = js_or (el_caratulado e) [],
      enlace = js_or (el_enlace e) [],
      index = i\<rparr>"

definition se_conserva :: "elemento \<Rightarrow> bool" where
  "se_conserva e = (truthy (el_rol e) \<or> truthy (el_fecha e) \<or> truthy (el_tribunal e))"

fun forEach_elemento :: "(nat \<Rightarrow> nat) \<Rightarrow> nat \<Rightarrow> elemento list \<Rightarrow> resultado list" where
  "forEach_elemento now i [] = []"
| "forEach_elemento now i (e # es) =
     (if se_conserva e then [item now i e] else []) @ forEach_elemento now (Suc i) es"

definition extractResultsFromPage :: "(nat \<Rightarrow> nat) \<Rightarrow> elemento list \<Rightarrow> resultado list" where
  "extractResultsFromPage now elementos = forEach_elemento now 0 elementos"

section \<open>The table \<open>jurisprudencia_cs\<close>\<close>

text \<open>
  A sentence as \<open>extractSentenceDetails\<close> builds it; the row \<open>saveSentenceToSupabase\<close>
  inserts has the same eleven fields. \<open>'v\<close> is the type of an embedding vector.

  The table keeps of a row the values the insert sent. What the database adds (\<open>id\<close>,
  \<open>created_at\<close>) and how it holds \<open>fecha\<close> and \<open>fecha_ingreso\<close> in its date types is
  left out.
\<close>

record 'v sentencia = basicos +
  texto_completo :: string
  considerandos :: string
  resolucion :: string
  fecha_ingreso :: string
  hash_contenido :: string
  embeddings :: "'v option"

text \<open>
  The cast \<open>NEW.texto_completo::bytea\<close> of the trigger reads the text with the input
  function of \<open>bytea\<close>: hex format after a leading \<open>\x\<close>, escape format otherwise, where a
  backslash must be followed by a backslash or by three octal digits. \<open>None\<close> is the
  error "invalid input syntax for type bytea".
\<close>

definition backslash :: char where
  "backslash = CHR 0x5C"

definition is_octal3 :: "string \<Rightarrow> bool" where
  "is_octal3 s =
     (case s of
        a # b # c # r \<Rightarrow>
          (48::nat) \<le> of_char a \<and> of_char a \<le> (51::nat) \<and>
          (48::nat) \<le> of_char b \<and> of_char b \<le> (55::nat) \<and>
          (48::nat) \<le> of_char c \<and> of_char c \<le> (55::nat)
      | _ \<Rightarrow> False)"

definition octal_val :: "string \<Rightarrow> nat" where
  "octal_val s = foldl (\<lambda>acc c. 8 * acc + digit_val c) 0 s"

fun byteain_escape :: "string \<Rightarrow> string option" where
  "byteain_escape [] = Some []"
| "byteain_escape (c # cs) =
     (if c \<noteq> backslash then map_option ((#) c) (byteain_escape cs)
      else if is_octal3 cs
        then map_option ((#) (char_of (octal_val (take 3 cs)))) (byteain_escape (drop 3 cs))
      else if take 1 cs = [backslash]
        then map_option ((#) backslash) (byteain_escape (drop 1 cs))
      else None)"

definition get_hex :: "char \<Rightarrow> nat option" where
  "get_hex c =
     (let n = (of_char c :: nat)
      in if 48 \<le> n \<and> n \<le> 57 then Some (n - 48)
         else if 97 \<le> n \<and> n \<le> 102 then Some (n - 87)
         else if 65 \<le> n \<and> n \<le> 70 then Some (n - 55)
         else None)"

definition is_hex_space :: "char \<Rightarrow> bool" where
  "is_hex_space c = (c = CHR 0x20 \<or> c = CHR 0x0A \<or> c = CHR 0x09 \<or> c = CHR 0x0D)"

fun hex_decode :: "string \<Rightarrow> string option" where
  "hex_decode [] = Some []"
| "hex_decode [c] = (if is_hex_space c then Some [] else None)"
| "hex_decode (c # d # r) =
     (if is_hex_space c then hex_decode (d # r)
      else case get_hex c of
             None \<Rightarrow> None
           | Some h \<Rightarrow>
               (case get_hex d of
                  None \<Rightarrow> None
                | Some l \<Rightarrow> map_option ((#) (char_of (16 * h + l))) (hex_decode r)))"

definition byteain :: "string \<Rightarrow> string option" where
  "byteain s =
     (if take 2 s = [backslash, CHR ''x''] then hex_decode (drop 2 s) else byteain_escape s)"

text \<open>
  The trigger function \<open>actualizar_hash_contenido\<close> of the schema file, run before every
  insert into the table of that file:
  \<open>NEW.hash_contenido = encode(sha256(NEW.texto_completo::bytea), 'hex')\<close>.
\<close>

definition actualizar_hash_contenido :: "'v sentencia \<Rightarrow> 'v sentencia option" where
  "actualizar_hash_contenido new =
     map_option (\<lambda>b. new\<lparr>hash_contenido := sha256_hex b\<rparr>) (byteain (texto_completo new))"

datatype store_error = Unique_violation | Other_store_error

text \<open>
  The repository creates the table \<open>jurisprudencia_cs\<close> in two ways: the table of the
  README (the \<open>CREATE TABLE\<close> under "Crear tabla") and the table of the schema file, which
  alone has the trigger. \<open>columnas\<close> lists the columns of each, in the order of the files.
\<close>

datatype tabla_sql = Tabla_readme | Tabla_schema

definition columnas :: "tabla_sql \<Rightarrow> string list" where
  "columnas t =
     (case t of
        Tabla_readme \<Rightarrow>
          [''id'', ''rol'', ''fecha'', ''tribunal'', ''caratulado'', ''texto_completo'',
           ''considerandos'', ''resolucion'', ''enlace'', ''hash_contenido'', ''embeddings'',
           ''fecha_ingreso'', ''created_at'']
      | Tabla_schema \<Rightarrow>
          [''id'', ''rol'', ''k_parameter'', ''url_detalle'', ''caratula'', ''fecha_sentencia'',
           ''tribunal'', ''sala'', ''tipo_recurso'', ''resultado_recurso'', ''materia'',
           ''descriptores'', ''corte_origen'', ''ministro_redactor'', ''texto_completo'',
           ''parte_expositiva'', ''considerandos'', ''parte_resolutiva'', ''votos_minoria'',
           ''embedding_titulo'', ''embedding_contenido'', ''embedding_descriptores'',
           ''hash_contenido'', ''fecha_scraping'', ''version_scraper'', ''num_caracteres'',
           ''num_palabras'', ''num_parrafos'', ''created_at'', ''updated_at'', ''es_valido'',
           ''errores_procesamiento'', ''calidad_extraccion''])"

text \<open>The keys of the object \<open>saveSentenceToSupabase\<close> inserts.\<close>

definition columnas_fila :: "string list" where
  "columnas_fila =
     [''rol'', ''fecha'', ''tribunal'', ''caratulado'', ''texto_completo'', ''considerandos'',
      ''resolucion'', ''enlace'', ''hash_contenido'', ''embeddings'', ''fecha_ingreso'']"

text \<open>What the \<open>BEFORE INSERT\<close> triggers of the table make of the new row.\<close>

definition antes_de_insertar :: "tabla_sql \<Rightarrow> 'v sentencia \<Rightarrow> 'v sentencia option" where
  "antes_de_insertar t fila =
     (case t of Tabla_readme \<Rightarrow> Some fila | Tabla_schema \<Rightarrow> actualizar_hash_contenido fila)"

text \<open>
  One insert into the table. A row that names a column the table does not have is
  rejected before anything runs; then the triggers run, then the constraint \<open>UNIQUE\<close> on
  \<open>rol\<close> is checked. \<open>falla\<close> stands for every rejection the model does not describe:
  the network, permissions, a value the type of its column refuses (a \<open>fecha\<close> that is
  not a date, a string longer than its \<open>VARCHAR\<close> column; PostgreSQL cuts such a string
  only when the excess is all spaces, and \<open>rol\<close> comes trimmed from the page).
\<close>

definition insert_fila ::
    "tabla_sql \<Rightarrow> bool \<Rightarrow> 'v sentencia \<Rightarrow> 'v sentencia list
       \<Rightarrow> store_error + 'v sentencia list" where
  "insert_fila t falla fila tabla =
     (if falla then Inl Other_store_error
      else if list_all (\<lambda>c. c \<in> set (columnas t)) columnas_fila
      then (case antes_de_insertar t fila of
              None \<Rightarrow> Inl Other_store_error
            | Some nueva \<Rightarrow>
                if rol nueva \<in> set (map rol tabla) then Inl Unique_violation
                else Inr (tabla @ [nueva]))
      else Inl Other_store_error)"

text \<open>\<open>.select('rol').eq('rol', rol).limit(1)\<close>\<close>

definition select_rol :: "'v sentencia list \<Rightarrow> string \<Rightarrow> string list" where
  "select_rol tabla r = take 1 (map rol (filter (\<lambda>f. rol f = r) tabla))"

section \<open>The pipeline\<close>

text \<open>
  What the outside world answers while one result is processed: how the existence query
  ends, what the detail page holds (\<open>None\<close>: navigation or extraction threw), the
  embedding provider (\<open>None\<close>: the call failed), whether the store rejects the insert
  for a reason of its own, the clock, and the time zone (through \<open>toISOString\<close>).
\<close>

datatype select_reply = Select_data | Select_error | Select_throws

text \<open>
  An embedding of the provider: the 1536 numbers it returns for a text. The numbers are
  not modelled; a vector is named by the text it was computed from.
\<close>

datatype vector = Vector_de string

record detalles =
  d_texto_completo :: string
  d_considerandos :: string
  d_resolucion :: string
  d_fecha :: string
  d_tribunal :: string

record 'v entorno =
  respuesta_select :: select_reply
  pagina :: "detalles option"
  embeddings_create :: "string \<Rightarrow> 'v option"
  insert_falla :: bool
  ahora :: string
  toISOString :: "fecha_civil \<Rightarrow> string"

text \<open>The calls to the collaborators, in the order they are made.\<close>

datatype 'v llamada =
    Select_rol string
  | Page_goto string
  | Embeddings_create string
  | Insert_fila "'v sentencia"

record estadisticas =
  total_procesadas :: nat
  exitosas :: nat
  duplicadas :: nat
  errores :: nat

text \<open>
  The scraper object: \<open>supabase\<close> and \<open>openai\<close> say whether the client is set (not
  \<open>null\<close>); \<open>esquema\<close> says which table the Supabase project has, and
  \<open>jurisprudencia_cs\<close> is its content.
\<close>

record 'v scraper =
  supabase :: bool
  openai :: bool
  enableEmbeddings :: bool
  stats :: estadisticas
  esquema :: tabla_sql
  jurisprudencia_cs :: "'v sentencia list"
  llamadas :: "'v llamada list"

definition checkDuplicateByRol :: "select_reply \<Rightarrow> 'v sentencia list \<Rightarrow> string \<Rightarrow> bool" where
  "checkDuplicateByRol reply tabla r =
     (case reply of
        Select_throws \<Rightarrow> False
      | Select_error \<Rightarrow> False
      | Select_data \<Rightarrow> 0 < length (select_rol tabla r))"

definition extractSentenceDetails :: "'v entorno \<Rightarrow> resultado \<Rightarrow> 'v sentencia" where
  "extractSentenceDetails env resultado =
     (let s0 = \<lparr>rol = rol resultado, fecha = fecha resultado, tribunal = tribunal resultado,
                caratulado = caratulado resultado, enlace = enlace resultado,
                texto_completo = [], considerandos = [], resolucion = [],
                fecha_ingreso = ahora env, hash_contenido = [], embeddings = None\<rparr>;
          s1 = (if enlace resultado \<noteq> []
                then (case pagina env of
                        None \<Rightarrow> s0
                      | Some d \<Rightarrow>
                          s0\<lparr>texto_completo := d_texto_completo d,
                             considerandos := d_considerandos d,
                             resolucion := d_resolucion d,
                             fecha := d_fecha d,
                             tribunal := d_tribunal d\<rparr>)
                else s0);
          s2 = (if fecha s1 \<noteq> []
                then s1\<lparr>fecha := processFecha (toISOString env) (fecha s1)\<rparr> else s1)
      in s2\<lparr>hash_contenido := sha256_hex (rol s2 @ texto_completo s2 @ considerandos s2)\<rparr>)"

definition textoParaEmbedding :: "'v sentencia \<Rightarrow> string" where
  "textoParaEmbedding s = js_trim (caratulado s @ '' '' @ considerandos s @ '' '' @ resolucion s)"

text \<open>The sentence afterwards, and the provider calls made.\<close>

definition generateEmbeddings ::
    "(string \<Rightarrow> 'v option) \<Rightarrow> 'v sentencia \<Rightarrow> 'v sentencia \<times> 'v llamada list" where
  "generateEmbeddings create s =
     (if textoParaEmbedding s = [] then (s, [])
      else case create (textoParaEmbedding s) of
             None \<Rightarrow> (s, [Embeddings_create (textoParaEmbedding s)])
           | Some v \<Rightarrow> (s\<lparr>embeddings := Some v\<rparr>, [Embeddings_create (textoParaEmbedding s)]))"

text \<open>\<open>Inl\<close> is the error the function throws.\<close>

definition saveSentenceToSupabase ::
    "tabla_sql \<Rightarrow> bool \<Rightarrow> 'v sentencia \<Rightarrow> 'v sentencia list
       \<Rightarrow> store_error + 'v sentencia list" where
  "saveSentenceToSupabase t falla s tabla =
     insert_fila t falla
       \<lparr>rol = rol s, fecha = fecha s, tribunal = tribunal s, caratulado = caratulado s,
        enlace = enlace s, texto_completo = texto_completo s, considerandos = considerandos s,
        resolucion = resolucion s, fecha_ingreso = fecha_ingreso s,
        hash_contenido = hash_contenido s, embeddings = embeddings s\<rparr>
       tabla"

datatype salida = Returned | Thrown store_error

definition sumar_duplicada :: "'v scraper \<Rightarrow> 'v scraper" where
  "sumar_duplicada this = this\<lparr>stats := (stats this)\<lparr>duplicadas := duplicadas (stats this) + 1\<rparr>\<rparr>"

definition sumar_exitosa :: "'v scraper \<Rightarrow> 'v scraper" where
  "sumar_exitosa this = this\<lparr>stats := (stats this)\<lparr>exitosas := exitosas (stats this) + 1\<rparr>\<rparr>"

definition sumar_error :: "'v scraper \<Rightarrow> 'v scraper" where
  "sumar_error this = this\<lparr>stats := (stats this)\<lparr>errores := errores (stats this) + 1\<rparr>\<rparr>"

definition sumar_procesada :: "'v scraper \<Rightarrow> 'v scraper" where
  "sumar_procesada this =
     this\<lparr>stats := (stats this)\<lparr>total_procesadas := total_procesadas (stats this) + 1\<rparr>\<rparr>"

definition registrar :: "'v llamada list \<Rightarrow> 'v scraper \<Rightarrow> 'v scraper" where
  "registrar cs this = this\<lparr>llamadas := llamadas this @ cs\<rparr>"

text \<open>The navigation \<open>extractSentenceDetails\<close> makes: only when the result has a link.\<close>

definition detalle_llamadas :: "resultado \<Rightarrow> 'v llamada list" where
  "detalle_llamadas resultado =
     (if enlace resultado \<noteq> [] then [Page_goto (enlace resultado)] else [])"

text \<open>\<open>if (this.config.enableEmbeddings && this.openai) await this.generateEmbeddings(sentencia)\<close>\<close>

definition enriquecer ::
    "'v scraper \<Rightarrow> 'v entorno \<Rightarrow> 'v sentencia \<Rightarrow> 'v sentencia \<times> 'v llamada list" where
  "enriquecer this env s =
     (if enableEmbeddings this \<and> openai this
      then generateEmbeddings (embeddings_create env) s else (s, []))"

definition processSingleResult ::
    "'v entorno \<Rightarrow> resultado \<Rightarrow> 'v scraper \<Rightarrow> salida \<times> 'v scraper" where
  "processSingleResult env resultado this =
     (if supabase this \<and>
         checkDuplicateByRol (respuesta_select env) (jurisprudencia_cs this) (rol resultado)
      then (Returned, sumar_duplicada (registrar [Select_rol (rol resultado)] this))
      else
        let this1 = (if supabase this then registrar [Select_rol (rol resultado)] this else this);
            this2 = registrar (detalle_llamadas resultado) this1;
            enriquecida = enriquecer this env (extractSentenceDetails env resultado);
            sentencia = fst enriquecida;
            this3 = registrar (snd enriquecida) this2
        in if supabase this
           then (case saveSentenceToSupabase (esquema this) (insert_falla env) sentencia
                         (jurisprudencia_cs this3) of
                   Inl e \<Rightarrow> (Thrown e, registrar [Insert_fila sentencia] this3)
                 | Inr tabla \<Rightarrow>
                     (Returned,
                      sumar_exitosa
                        ((registrar [Insert_fila sentencia] this3)\<lparr>jurisprudencia_cs := tabla\<rparr>)))
           else (Returned, this3))"

text \<open>
  One turn of the loop of \<open>processResults\<close>: the result and what the world answers
  while it is processed. The \<open>catch\<close> counts the error and the loop goes on.
\<close>

definition iteracion :: "resultado \<times> 'v entorno \<Rightarrow> 'v scraper \<Rightarrow> salida \<times> 'v scraper" where
  "iteracion x this =
     (case processSingleResult (snd x) (fst x) (sumar_procesada this) of
        (Returned, this') \<Rightarrow> (Returned, this')
      | (Thrown e, this') \<Rightarrow> (Thrown e, sumar_error this'))"

fun processResults :: "(resultado \<times> 'v entorno) list \<Rightarrow> 'v scraper \<Rightarrow> 'v scraper" where
  "processResults [] this = this"
| "processResults (x # resto) this = processResults resto (snd (iteracion x this))"

text \<open>How the processing of each result of the run ended, in order.\<close>

fun salidas :: "(resultado \<times> 'v entorno) list \<Rightarrow> 'v scraper \<Rightarrow> salida list" where
  "salidas [] this = []"
| "salidas (x # resto) this = fst (iteracion x this) # salidas resto (snd (iteracion x this))"

definition es_error :: "salida \<Rightarrow> bool" where
  "es_error s = (case s of Returned \<Rightarrow> False | Thrown e \<Rightarrow> True)"

text \<open>
  A row whose \<open>hash_contenido\<close> is the digest of its own \<open>rol\<close>, \<open>texto_completo\<close> and
  \<open>considerandos\<close>, concatenated in this order.
\<close>

definition hash_consistente :: "'v sentencia \<Rightarrow> bool" where
  "hash_consistente f =
     (hash_contenido f = sha256_hex (rol f @ texto_completo f @ considerandos f))"

text \<open>A call that, when it is an insert, hands over such a row.\<close>

definition entrega_consistente :: "'v llamada \<Rightarrow> bool" where
  "entrega_consistente c = (case c of Insert_fila s \<Rightarrow> hash_consistente s | _ \<Rightarrow> True)"

section \<open>Example inputs\<close>

text \<open>
  A result of the search page, its detail page, an environment in which every collaborator
  answers, a scraper with both clients set and an empty table, and the row an earlier run
  stored for the same \<open>rol\<close>. The table is the one of the README.
\<close>

definition ej_resultado :: resultado where
  "ej_resultado =
     \<lparr>rol = ''1234-2024'', fecha = ''15/03/2024'', tribunal = ''Corte Suprema'',
      caratulado = ''Perez con Fisco'', enlace = ''https://juris.pjud.cl/detalle/1'',
      index = 0\<rparr>"

definition ej_detalles :: detalles where
  "ej_detalles =
     \<lparr>d_texto_completo = ''Se rechaza el recurso.'', d_considerandos = ''Primero: visto.'',
      d_resolucion = ''Se rechaza.'', d_fecha = ''15/03/2024'',
      d_tribunal = ''Corte Suprema''\<rparr>"

definition ej_entorno :: "vector entorno" where
  "ej_entorno =
     \<lparr>respuesta_select = Select_data, pagina = Some ej_detalles,
      embeddings_create = (\<lambda>t. Some (Vector_de t)), insert_falla = False,
      ahora = ''2024-06-01T12:00:00.000Z'', toISOString = toISOString_utc\<rparr>"

definition ej_scraper :: "vector scraper" where
  "ej_scraper =
     \<lparr>supabase = True, openai = True, enableEmbeddings = True,
      stats = \<lparr>total_procesadas = 0, exitosas = 0, duplicadas = 0, errores = 0\<rparr>,
      esquema = Tabla_readme, jurisprudencia_cs = [], llamadas = []\<rparr>"

definition ej_fila :: "vector sentencia" where
  "ej_fila =
     \<lparr>rol = ''1234-2024'', fecha = ''2024-03-15T00:00:00.000Z'', tribunal = ''Corte Suprema'',
      caratulado = ''Perez con Fisco'', enlace = ''https://juris.pjud.cl/detalle/1'',
      texto_completo = ''Se rechaza el recurso.'', considerandos = ''Primero: visto.'',
      resolucion = ''Se rechaza.'', fecha_ingreso = ''2024-05-01T12:00:00.000Z'',
      hash_contenido = ''d4b48d636f410d3de10b7585d1aa9f3a19c404eb37dd55a63c1696b7f879ecf7'',
      embeddings = None\<rparr>"

text \<open>
  The same environment when the existence query fails, the scraper when the table already
  holds the row, the scraper when the table is the one of the schema file, a result
  without a link to its detail page, and a provider that fails on every text that starts
  with the title and answers on every other text.
\<close>

definition ej_entorno_sin_select :: "vector entorno" where
  "ej_entorno_sin_select = ej_entorno\<lparr>respuesta_select := Select_error\<rparr>"

definition ej_scraper_con_fila :: "vector scraper" where
  "ej_scraper_con_fila = ej_scraper\<lparr>jurisprudencia_cs := [ej_fila]\<rparr>"

definition ej_scraper_schema :: "vector scraper" where
  "ej_scraper_schema = ej_scraper\<lparr>esquema := Tabla_schema\<rparr>"

definition ej_resultado_sin_enlace :: resultado where
  "ej_resultado_sin_enlace = ej_resultado\<lparr>enlace := []\<rparr>"

definition ej_entorno_titulo_falla :: "vector entorno" where
  "ej_entorno_titulo_falla =
     ej_entorno\<lparr>embeddings_create :=
       (\<lambda>t. if take 15 t = ''Perez con Fisco'' then None else Some (Vector_de t))\<rparr>"

text \<open>
  Two elements of a result page: one where only the date was found, one where nothing
  was found.
\<close>

definition ej_elemento_sin_rol :: elemento where
  "ej_elemento_sin_rol =
     \<lparr>el_rol = None, el_fecha = Some ''15/03/2024'', el_tribunal = None,
      el_caratulado = None, el_enlace = None\<rparr>"

definition ej_elemento_vacio :: elemento where
  "ej_elemento_vacio =
     \<lparr>el_rol = Some [], el_fecha = None, el_tribunal = Some [],
      el_caratulado = Some ''Perez con Fisco'', el_enlace = None\<rparr>"

text \<open>
  A run of three results: the first is stored, the insert of the second is rejected by
  the store, the third has the \<open>rol\<close> of the first.
\<close>

definition ej_corrida :: "(resultado \<times> vector entorno) list" where
  "ej_corrida =
     [(ej_resultado, ej_entorno),
      (ej_resultado\<lparr>rol := ''77-2024''\<rparr>, ej_entorno\<lparr>insert_falla := True\<rparr>),
      (ej_resultado, ej_entorno)]"

section \<open>Helper lemmas\<close>

lemma replicate_numeral_unfold: "replicate (numeral k) x = x # replicate (pred_numeral k) x"
  by (simp add: numeral_eq_Suc)

text \<open>
  The table of the README has every column the scraper writes; the table of the schema
  file lacks \<open>fecha\<close> (and five more), so it rejects every row of the scraper and its
  trigger never sees one.
\<close>

lemma columnas_readme: "list_all (\<lambda>c. c \<in> set (columnas Tabla_readme)) columnas_fila"
  by (simp add: columnas_def columnas_fila_def)

lemma columnas_schema: "\<not> list_all (\<lambda>c. c \<in> set (columnas Tabla_schema)) columnas_fila"
  by (simp add: columnas_def columnas_fila_def)

lemma insert_fila_readme:
  "insert_fila Tabla_readme falla fila tabla =
     (if falla then Inl Other_store_error
      else if rol fila \<in> set (map rol tabla) then Inl Unique_violation
      else Inr (tabla @ [fila]))"
  by (simp add: insert_fila_def columnas_readme antes_de_insertar_def)

lemma insert_fila_schema: "insert_fila Tabla_schema falla fila tabla = Inl Other_store_error"
  by (simp add: insert_fila_def columnas_schema)

lemmas date_eval =
  processFecha_def formatos_def moment_strict_def match_digits_def is_digit_def toInt_def
  digit_val_def parseTwoDigitYear_def overflow_def daysInMonth_def isLeapYear_def
  toISOString_utc_def zeroFill_def show_nat.simps digit_char_def replicate_numeral_unfold

lemmas trim_eval = textoParaEmbedding_def js_trim_def dropWs.simps ws_len_def ws_codes_def

lemmas bytea_eval = byteain_def backslash_def is_octal3_def

lemmas pipeline_eval =
  processSingleResult_def iteracion_def checkDuplicateByRol_def select_rol_def
  extractSentenceDetails_def detalle_llamadas_def enriquecer_def generateEmbeddings_def
  saveSentenceToSupabase_def insert_fila_readme insert_fila_schema
  sumar_duplicada_def sumar_exitosa_def sumar_error_def sumar_procesada_def registrar_def
  Let_def

lemmas ej_defs = ej_resultado_def ej_detalles_def ej_entorno_def ej_scraper_def ej_fila_def
  ej_corrida_def ej_entorno_sin_select_def ej_scraper_con_fila_def ej_scraper_schema_def
  ej_resultado_sin_enlace_def
  ej_entorno_titulo_falla_def ej_elemento_sin_rol_def ej_elemento_vacio_def

lemmas ej_eval = pipeline_eval ej_defs date_eval trim_eval bytea_eval

lemmas contadores = sumar_duplicada_def sumar_exitosa_def sumar_error_def sumar_procesada_def
  registrar_def

subsection \<open>The table\<close>

lemma fila_de_sentencia:
  "\<lparr>rol = rol s, fecha = fecha s, tribunal = tribunal s, caratulado = caratulado s,
    enlace = enlace s, texto_completo = texto_completo s, considerandos = considerandos s,
    resolucion = resolucion s, fecha_ingreso = fecha_ingreso s,
    hash_contenido = hash_contenido s, embeddings = embeddings s\<rparr> = (s :: 'v sentencia)"
  by (cases s) simp

lemma saveSentenceToSupabase_insert:
  "saveSentenceToSupabase t falla s tabla = insert_fila t falla s tabla"
  by (simp add: saveSentenceToSupabase_def fila_de_sentencia)

lemma insert_fila_Inr:
  "insert_fila t falla fila tabla = Inr nueva \<Longrightarrow>
     t = Tabla_readme \<and> \<not> falla \<and> rol fila \<notin> set (map rol tabla) \<and> nueva = tabla @ [fila]"
  by (cases t) (auto simp: insert_fila_readme insert_fila_schema split: if_splits)

lemma insert_fila_presente:
  "rol fila \<in> set (map rol tabla) \<Longrightarrow> \<exists>e. insert_fila t falla fila tabla = Inl e"
  by (cases t) (auto simp: insert_fila_readme insert_fila_schema)

lemma insert_fila_distinct:
  "insert_fila t falla fila tabla = Inr nueva \<Longrightarrow> distinct (map rol tabla) \<Longrightarrow>
     distinct (map rol nueva)"
  by (auto dest!: insert_fila_Inr)

lemma una_fila:
  "distinct (map f xs) \<Longrightarrow> y \<in> set (map f xs) \<Longrightarrow> length (filter (\<lambda>x. f x = y) xs) = 1"
proof (induction xs)
  case Nil
  then show ?case by simp
next
  case (Cons x xs)
  show ?case
  proof (cases "f x = y")
    case True
    with Cons.prems have "y \<notin> set (map f xs)" by auto
    then have "filter (\<lambda>x. f x = y) xs = []" by (auto simp: filter_empty_conv)
    with True show ?thesis by simp
  next
    case False
    with Cons show ?thesis by auto
  qed
qed

lemma checkDuplicateByRol_iff:
  "checkDuplicateByRol reply tabla r \<longleftrightarrow> reply = Select_data \<and> r \<in> set (map rol tabla)"
proof -
  have "filter (\<lambda>f. rol f = r) tabla \<noteq> [] \<longleftrightarrow> r \<in> set (map rol tabla)"
    by (auto simp: filter_empty_conv)
  then show ?thesis
    by (cases reply) (auto simp: checkDuplicateByRol_def select_rol_def)
qed

subsection \<open>One result\<close>

lemma processSingleResult_hit:
  "supabase this \<Longrightarrow>
   checkDuplicateByRol (respuesta_select env) (jurisprudencia_cs this) (rol resultado) \<Longrightarrow>
   processSingleResult env resultado this =
     (Returned, sumar_duplicada (registrar [Select_rol (rol resultado)] this))"
  by (simp add: processSingleResult_def)

lemma rol_enriquecer [simp]: "rol (fst (enriquecer this env s)) = rol s"
  by (simp add: enriquecer_def generateEmbeddings_def split: option.splits)

lemma rol_extractSentenceDetails [simp]: "rol (extractSentenceDetails env resultado) = rol resultado"
  by (simp add: extractSentenceDetails_def Let_def split: option.splits)

lemma tabla_registrar [simp]: "jurisprudencia_cs (registrar cs this) = jurisprudencia_cs this"
  by (simp add: registrar_def)

lemma processSingleResult_tabla:
  "jurisprudencia_cs (snd (processSingleResult env resultado this)) = jurisprudencia_cs this \<or>
   (rol resultado \<notin> set (map rol (jurisprudencia_cs this)) \<and>
      jurisprudencia_cs (snd (processSingleResult env resultado this))
        = jurisprudencia_cs this @ [fst (enriquecer this env (extractSentenceDetails env resultado))])"
  by (auto simp: processSingleResult_def Let_def saveSentenceToSupabase_insert contadores
      split: sum.splits dest!: insert_fila_Inr)

lemma processSingleResult_presente:
  assumes "rol resultado \<in> set (map rol (jurisprudencia_cs this))"
  shows "jurisprudencia_cs (snd (processSingleResult env resultado this)) = jurisprudencia_cs this"
  using processSingleResult_tabla[of env resultado this] assms by auto

lemma processSingleResult_distinct:
  assumes "distinct (map rol (jurisprudencia_cs this))"
  shows "distinct (map rol (jurisprudencia_cs (snd (processSingleResult env resultado this))))"
  using processSingleResult_tabla[of env resultado this] assms by auto

lemma llamadas_processSingleResult:
  "supabase this \<Longrightarrow>
   \<exists>resto. llamadas (snd (processSingleResult env resultado this))
            = llamadas this @ Select_rol (rol resultado) # resto"
  by (auto simp: processSingleResult_def Let_def contadores split: sum.splits)

lemma processSingleResult_miss:
  assumes "supabase this"
    and "\<not> checkDuplicateByRol (respuesta_select env) (jurisprudencia_cs this) (rol resultado)"
  shows "llamadas (snd (processSingleResult env resultado this))
           = llamadas this @ [Select_rol (rol resultado)] @ detalle_llamadas resultado
               @ snd (enriquecer this env (extractSentenceDetails env resultado))
               @ [Insert_fila (fst (enriquecer this env (extractSentenceDetails env resultado)))]"
    and "duplicadas (stats (snd (processSingleResult env resultado this))) = duplicadas (stats this)"
  using assms by (auto simp: processSingleResult_def Let_def contadores split: sum.splits)

subsection \<open>The loop\<close>

lemma tabla_sumar_procesada [simp]:
  "jurisprudencia_cs (sumar_procesada this) = jurisprudencia_cs this"
  by (simp add: sumar_procesada_def)

lemma tabla_sumar_error [simp]:
  "jurisprudencia_cs (sumar_error this) = jurisprudencia_cs this"
  by (simp add: sumar_error_def)

lemma tabla_iteracion:
  "jurisprudencia_cs (snd (iteracion x this))
     = jurisprudencia_cs (snd (processSingleResult (snd x) (fst x) (sumar_procesada this)))"
  by (simp add: iteracion_def split: prod.splits salida.splits)

lemma iteracion_distinct:
  "distinct (map rol (jurisprudencia_cs this)) \<Longrightarrow>
   distinct (map rol (jurisprudencia_cs (snd (iteracion x this))))"
  using processSingleResult_distinct[of "sumar_procesada this" "snd x" "fst x"]
  by (simp add: tabla_iteracion)

lemma processResults_distinct:
  "distinct (map rol (jurisprudencia_cs this)) \<Longrightarrow>
   distinct (map rol (jurisprudencia_cs (processResults xs this)))"
  by (induction xs arbitrary: this) (simp_all add: iteracion_distinct)

lemma processResults_append:
  "processResults (xs @ ys) this = processResults ys (processResults xs this)"
  by (induction xs arbitrary: this) simp_all

lemma salidas_append:
  "salidas (xs @ ys) this = salidas xs this @ salidas ys (processResults xs this)"
  by (induction xs arbitrary: this) simp_all

lemma length_salidas: "length (salidas xs this) = length xs"
  by (induction xs arbitrary: this) simp_all

lemma fst_iteracion:
  "fst (iteracion x this) = fst (processSingleResult (snd x) (fst x) (sumar_procesada this))"
  by (cases "processSingleResult (snd x) (fst x) (sumar_procesada this)")
    (simp add: iteracion_def split: salida.splits)

lemma snd_iteracion:
  "snd (iteracion x this)
     = (if es_error (fst (iteracion x this))
        then sumar_error (snd (processSingleResult (snd x) (fst x) (sumar_procesada this)))
        else snd (processSingleResult (snd x) (fst x) (sumar_procesada this)))"
  by (cases "processSingleResult (snd x) (fst x) (sumar_procesada this)")
    (simp add: iteracion_def es_error_def split: salida.splits)

lemma processResults_take_Suc:
  "i < length xs \<Longrightarrow>
   processResults (take (Suc i) xs) this = snd (iteracion (xs ! i) (processResults (take i xs) this))"
  by (simp add: take_Suc_conv_app_nth processResults_append)

lemma salidas_nth:
  assumes "i < length xs"
  shows "salidas xs this ! i = fst (iteracion (xs ! i) (processResults (take i xs) this))"
proof -
  from assms have "xs = take i xs @ xs ! i # drop (Suc i) xs"
    by (simp add: id_take_nth_drop)
  then have "salidas xs this
      = salidas (take i xs) this
          @ salidas (xs ! i # drop (Suc i) xs) (processResults (take i xs) this)"
    by (metis salidas_append)
  moreover from assms have "length (salidas (take i xs) this) = i"
    by (simp add: length_salidas)
  ultimately show ?thesis
    by (simp add: nth_append)
qed

lemma stats_processSingleResult:
  "total_procesadas (stats (snd (processSingleResult env resultado this))) = total_procesadas (stats this)
   \<and> errores (stats (snd (processSingleResult env resultado this))) = errores (stats this)"
  by (auto simp: processSingleResult_def Let_def contadores split: sum.splits)

lemma stats_iteracion:
  "total_procesadas (stats (snd (iteracion x this))) = total_procesadas (stats this) + 1
   \<and> errores (stats (snd (iteracion x this)))
       = errores (stats this) + (if es_error (fst (iteracion x this)) then 1 else 0)"
  using stats_processSingleResult[of "snd x" "fst x" "sumar_procesada this"]
  by (auto simp: iteracion_def es_error_def contadores split: prod.splits salida.splits)

lemma total_processResults:
  "total_procesadas (stats (processResults xs this)) = total_procesadas (stats this) + length xs"
  by (induction xs arbitrary: this) (simp_all add: stats_iteracion)

lemma errores_processResults:
  "errores (stats (processResults xs this))
     = errores (stats this) + length (filter es_error (salidas xs this))"
  by (induction xs arbitrary: this) (simp_all add: stats_iteracion)

lemma iteracion_hit:
  assumes "supabase this"
    and "checkDuplicateByRol (respuesta_select env) (jurisprudencia_cs this) (rol resultado)"
  shows "iteracion (resultado, env) this =
           (Returned,
            sumar_duplicada (registrar [Select_rol (rol resultado)] (sumar_procesada this)))"
  using assms by (simp add: iteracion_def processSingleResult_def sumar_procesada_def)

lemma iteracion_thrown:
  assumes "fst (processSingleResult env resultado (sumar_procesada this)) = Thrown e"
  shows "iteracion (resultado, env) this
           = (Thrown e, sumar_error (snd (processSingleResult env resultado (sumar_procesada this))))"
  using assms by (cases "processSingleResult env resultado (sumar_procesada this)")
    (simp add: iteracion_def)

lemma processSingleResult_thrown:
  assumes "fst (processSingleResult env resultado this) = Thrown e"
  shows "stats (snd (processSingleResult env resultado this)) = stats this"
    and "jurisprudencia_cs (snd (processSingleResult env resultado this)) = jurisprudencia_cs this"
  using assms by (auto simp: processSingleResult_def Let_def contadores split: sum.splits if_splits)

subsection \<open>The element loop\<close>

lemma index_item [simp]: "index (item now i e) = i"
  by (simp add: item_def)

lemma rol_item_sin_rol:
  "\<not> truthy (el_rol e) \<Longrightarrow> rol (item now i e) = ''ROL-'' @ show_nat (now i) @ ''-'' @ show_nat i"
  by (auto simp: item_def js_or_def truthy_def split: option.splits)

lemma rol_item_nonempty: "[] \<noteq> rol (item now i e)"
  by (auto simp: item_def js_or_def split: option.splits)

lemma set_forEach_elemento:
  "set (forEach_elemento now k es)
     = {item now (k + j) (es ! j) | j. j < length es \<and> se_conserva (es ! j)}"
proof (induction es arbitrary: k)
  case Nil
  then show ?case by simp
next
  case (Cons e es)
  have "{item now (k + j) ((e # es) ! j) | j. j < length (e # es) \<and> se_conserva ((e # es) ! j)}
        = (if se_conserva e then {item now k e} else {})
          \<union> {item now (Suc k + j) (es ! j) | j. j < length es \<and> se_conserva (es ! j)}"
    (is "?L = ?R")
  proof
    show "?L \<subseteq> ?R"
    proof
      fix x assume "x \<in> ?L"
      then obtain j where j: "x = item now (k + j) ((e # es) ! j)" "j < length (e # es)"
        "se_conserva ((e # es) ! j)" by blast
      show "x \<in> ?R"
      proof (cases j)
        case 0
        with j show ?thesis by simp
      next
        case (Suc m)
        with j have "x = item now (Suc k + m) (es ! m)" "m < length es" "se_conserva (es ! m)"
          by simp_all
        then show ?thesis by blast
      qed
    qed
  next
    show "?R \<subseteq> ?L"
    proof
      fix x assume "x \<in> ?R"
      then consider "se_conserva e" "x = item now k e"
        | m where "x = item now (Suc k + m) (es ! m)" "m < length es" "se_conserva (es ! m)"
        by (auto split: if_splits)
      then show "x \<in> ?L"
      proof cases
        case 1
        then have "x = item now (k + 0) ((e # es) ! 0) \<and> 0 < length (e # es)
                   \<and> se_conserva ((e # es) ! 0)" by simp
        then show ?thesis by blast
      next
        case 2
        then have "x = item now (k + Suc m) ((e # es) ! Suc m) \<and> Suc m < length (e # es)
                   \<and> se_conserva ((e # es) ! Suc m)" by simp
        then show ?thesis by blast
      qed
    qed
  qed
  with Cons.IH[of "Suc k"] show ?case by auto
qed

lemma set_extractResultsFromPage:
  "set (extractResultsFromPage now es)
     = {item now j (es ! j) | j. j < length es \<and> se_conserva (es ! j)}"
  by (simp add: extractResultsFromPage_def set_forEach_elemento)

subsection \<open>The content hash\<close>

lemma length_round256: "length s = 8 \<Longrightarrow> length (round256 s k w) = 8"
  by (cases "(s, k, w)" rule: round256.cases) (auto simp: Let_def)

lemma length_rounds: "length s = 8 \<Longrightarrow> length (rounds s ks ws) = 8"
  by (induction s ks ws rule: rounds.induct) (simp_all add: length_round256 del: round256.simps)

lemma length_compress: "length hs = 8 \<Longrightarrow> length (compress hs b) = 8"
  by (simp add: compress_def length_rounds)

lemma length_foldl_compress: "length hs = 8 \<Longrightarrow> length (foldl compress hs bs) = 8"
  by (induction bs arbitrary: hs) (simp_all add: length_compress)

lemma length_sha256: "length (sha256 m) = 8"
  by (simp add: sha256_def length_foldl_compress H0_def)

text \<open>The digest is 64 hex characters, that is 256 bits.\<close>

lemma length_sha256_hex: "length (sha256_hex m) = 64"
proof -
  have "\<And>ws. length (concat (map hex32 ws)) = 8 * length ws"
    by (induct_tac ws) (simp_all add: hex32_def)
  then show ?thesis by (simp add: sha256_hex_def length_sha256)
qed

lemma hex_char_hex: "hex_char (n mod 16) \<in> set ''0123456789abcdef''"
proof -
  have "''0123456789abcdef'' ! (n mod 16) \<in> set ''0123456789abcdef''"
    by (rule nth_mem) simp
  then show ?thesis by (simp only: hex_char_def)
qed

lemma set_hex32: "set (hex32 w) \<subseteq> set ''0123456789abcdef''"
  unfolding hex32_def set_map using hex_char_hex by blast

lemma set_sha256_hex: "set (sha256_hex m) \<subseteq> set ''0123456789abcdef''"
  unfolding sha256_hex_def set_concat set_map using set_hex32 by blast

text \<open>What the trigger of the schema file makes of a row it is given.\<close>

lemma hash_contenido_actualizar_hash_contenido:
  "byteain (texto_completo new) = Some b \<Longrightarrow>
     map_option hash_contenido (actualizar_hash_contenido new) = Some (sha256_hex b)"
  by (simp add: actualizar_hash_contenido_def)

text \<open>
  What the scraper computes and hands to the insert: the digest of \<open>rol\<close>,
  \<open>texto_completo\<close> and \<open>considerandos\<close> in this order; the embedding stage leaves it and
  the texts as they are.
\<close>

lemma hash_contenido_extractSentenceDetails:
  "hash_contenido (extractSentenceDetails env resultado)
     = sha256_hex (rol (extractSentenceDetails env resultado)
         @ texto_completo (extractSentenceDetails env resultado)
         @ considerandos (extractSentenceDetails env resultado))"
  by (simp add: extractSentenceDetails_def Let_def split: option.splits)

lemma enriquecer_solo_embeddings:
  "(fst (enriquecer this env s))\<lparr>embeddings := embeddings s\<rparr> = s"
  by (simp add: enriquecer_def generateEmbeddings_def split: option.splits)

lemmas sha_eval =
  sha256_hex_def sha256_def pad_def be_bytes8_def replicate_numeral_unfold hex32_def hex_char_def
  compress_def H0_def K256_def add32_def Ch_def Maj_def bsig0_def bsig1_def ssig0_def ssig1_def
  rotr_def

text \<open>The test vector \<open>abc\<close> of FIPS 180-4, and the content of the example.\<close>

lemma sha256_hex_abc:
  "sha256_hex ''abc'' = ''ba7816bf8f01cfea414140de5dae2223b00361a396177a9cb410ff61f20015ad''"
  by (simp add: sha_eval)

lemma sha256_hex_ej_contenido:
  "sha256_hex ''1234-2024Se rechaza el recurso.Primero: visto.''
     = ''d4b48d636f410d3de10b7585d1aa9f3a19c404eb37dd55a63c1696b7f879ecf7''"
  by (simp add: sha_eval)

lemma ej_tabla_nueva:
  "map (\<lambda>f. (rol f, texto_completo f, considerandos f))
     (jurisprudencia_cs (processResults [(ej_resultado, ej_entorno)] ej_scraper))
     = [(''1234-2024'', ''Se rechaza el recurso.'', ''Primero: visto.'')]"
  by (simp add: ej_eval)

lemma ej_tabla_schema:
  "salidas [(ej_resultado, ej_entorno)] ej_scraper_schema = [Thrown Other_store_error]
   \<and> jurisprudencia_cs (processResults [(ej_resultado, ej_entorno)] ej_scraper_schema) = []"
  by (simp add: ej_eval)

text \<open>The rows handed to the insert and the rows of the table keep a consistent hash.\<close>

lemma hash_consistente_extractSentenceDetails:
  "hash_consistente (extractSentenceDetails env resultado)"
  by (simp add: hash_consistente_def extractSentenceDetails_def Let_def split: option.splits)

lemma hash_consistente_enriquecer:
  "hash_consistente s \<Longrightarrow> hash_consistente (fst (enriquecer this env s))"
  by (simp add: hash_consistente_def enriquecer_def generateEmbeddings_def split: option.splits)

lemma hash_consistente_entregada:
  "hash_consistente (fst (enriquecer this env (extractSentenceDetails env resultado)))"
  by (rule hash_consistente_enriquecer) (rule hash_consistente_extractSentenceDetails)

lemma entrega_enriquecer:
  "list_all entrega_consistente (snd (enriquecer this env s))"
  by (simp add: enriquecer_def generateEmbeddings_def entrega_consistente_def split: option.splits)

lemma tabla_consistente_processSingleResult:
  assumes "list_all hash_consistente (jurisprudencia_cs this)"
  shows "list_all hash_consistente (jurisprudencia_cs (snd (processSingleResult env resultado this)))"
  using processSingleResult_tabla[of env resultado this] assms
    hash_consistente_entregada[of this env resultado]
  by auto

lemma tabla_consistente_processResults:
  "list_all hash_consistente (jurisprudencia_cs this) \<Longrightarrow>
   list_all hash_consistente (jurisprudencia_cs (processResults xs this))"
proof (induction xs arbitrary: this)
  case Nil
  then show ?case by simp
next
  case (Cons x xs)
  have "list_all hash_consistente (jurisprudencia_cs (snd (iteracion x this)))"
    using tabla_consistente_processSingleResult[of "sumar_procesada this" "snd x" "fst x"] Cons.prems
    by (simp add: tabla_iteracion)
  then show ?case by (simp add: Cons.IH)
qed

lemma llamadas_sumar_procesada [simp]: "llamadas (sumar_procesada this) = llamadas this"
  by (simp add: sumar_procesada_def)

lemma llamadas_sumar_error [simp]: "llamadas (sumar_error this) = llamadas this"
  by (simp add: sumar_error_def)

lemma llamadas_iteracion:
  "llamadas (snd (iteracion x this))
     = llamadas (snd (processSingleResult (snd x) (fst x) (sumar_procesada this)))"
  by (simp add: iteracion_def split: prod.splits salida.splits)

lemma entregas_processSingleResult:
  assumes "list_all entrega_consistente (llamadas this)"
  shows "list_all entrega_consistente (llamadas (snd (processSingleResult env resultado this)))"
  using assms hash_consistente_entregada[of this env resultado] entrega_enriquecer[of this env]
  by (auto simp: processSingleResult_def Let_def contadores detalle_llamadas_def
      entrega_consistente_def split: sum.splits)

lemma entregas_processResults:
  "list_all entrega_consistente (llamadas this) \<Longrightarrow>
   list_all entrega_consistente (llamadas (processResults xs this))"
proof (induction xs arbitrary: this)
  case Nil
  then show ?case by simp
next
  case (Cons x xs)
  have "list_all entrega_consistente (llamadas (snd (iteracion x this)))"
    using entregas_processSingleResult[of "sumar_procesada this" "snd x" "fst x"] Cons.prems
    by (simp add: llamadas_iteracion)
  then show ?case by (simp add: Cons.IH)
qed

subsection \<open>The example run\<close>

lemma ej_corrida_salidas:
  "salidas ej_corrida ej_scraper = [Returned, Thrown Other_store_error, Returned]"
  by (simp add: pipeline_eval ej_defs date_eval trim_eval bytea_eval)

lemma ej_corrida_stats:
  "stats (processResults ej_corrida ej_scraper)
     = \<lparr>total_procesadas = 3, exitosas = 1, duplicadas = 1, errores = 1\<rparr>"
  by (simp add: pipeline_eval ej_defs date_eval trim_eval bytea_eval)

lemma ej_texto_embedding:
  "textoParaEmbedding (extractSentenceDetails ej_entorno_titulo_falla ej_resultado)
     = ''Perez con Fisco Primero: visto. Se rechaza.''"
  by (simp add: ej_eval)

lemma ej_texto_embedding_entorno:
  "textoParaEmbedding (extractSentenceDetails ej_entorno ej_resultado)
     = ''Perez con Fisco Primero: visto. Se rechaza.''"
  by (simp add: ej_eval)

lemma ej_select_falla:
  "fst (processSingleResult ej_entorno_sin_select ej_resultado
         (sumar_procesada ej_scraper_con_fila)) = Thrown Unique_violation"
  by (simp add: ej_eval)

subsection \<open>Dates\<close>

lemma probar_formatos_first:
  "i < length fs \<Longrightarrow> moment_strict (fs ! i) s = Some d \<Longrightarrow>
   (\<forall>j<i. moment_strict (fs ! j) s = None) \<Longrightarrow> probar_formatos render fs s = render d"
proof (induction fs arbitrary: i)
  case Nil
  then show ?case by simp
next
  case (Cons f fs)
  show ?case
  proof (cases i)
    case 0
    with Cons.prems show ?thesis by simp
  next
    case (Suc k)
    with Cons.prems have f: "moment_strict f s = None" by auto
    from Suc Cons.prems have "probar_formatos render fs s = render d"
      by (intro Cons.IH[of k]) auto
    with f show ?thesis by simp
  qed
qed

lemma probar_formatos_none:
  "(\<forall>f\<in>set fs. moment_strict f s = None) \<Longrightarrow> probar_formatos render fs s = s"
  by (induction fs) simp_all

lemma ex_29_02_24: "moment_strict (formatos ! 4) ''29-02-24'' = Some \<lparr>anio = 2024, mes = 2, dia = 29\<rparr>"
  by (simp add: date_eval)

lemma ex_29_02_24_earlier: "j < 4 \<Longrightarrow> moment_strict (formatos ! j) ''29-02-24'' = None"
proof -
  assume "j < 4"
  then have "j = 0 \<or> j = 1 \<or> j = 2 \<or> j = 3" by arith
  then show ?thesis by (auto simp: date_eval)
qed

section \<open>The claims\<close>

subsection \<open>C1: a stored \<open>rol\<close> is not stored again\<close>

text \<open>
  C1, as the code has it. For every result whose \<open>rol\<close> already has a row in the table
  (the store client being set), processing it leaves the table as it was: the row is
  not overwritten and no second row with that \<open>rol\<close> appears. When the existence query
  is answered, the outcome is a duplicate: the turn of the loop returns without error,
  \<open>duplicadas\<close> grows by one, \<open>errores\<close> and \<open>exitosas\<close> stay. A table whose \<open>rol\<close>s are
  pairwise different holds exactly one row with that \<open>rol\<close> afterwards, and its \<open>rol\<close>s
  stay pairwise different through every run.
\<close>

theorem stored_rol_is_kept:
  assumes "supabase this"
    and "rol resultado \<in> set (map rol (jurisprudencia_cs this))"
  shows "jurisprudencia_cs (snd (iteracion (resultado, env) this)) = jurisprudencia_cs this
    \<and> (respuesta_select env = Select_data \<longrightarrow>
         fst (iteracion (resultado, env) this) = Returned
         \<and> duplicadas (stats (snd (iteracion (resultado, env) this))) = duplicadas (stats this) + 1
         \<and> errores (stats (snd (iteracion (resultado, env) this))) = errores (stats this)
         \<and> exitosas (stats (snd (iteracion (resultado, env) this))) = exitosas (stats this))
    \<and> (distinct (map rol (jurisprudencia_cs this)) \<longrightarrow>
         length (filter (\<lambda>f. rol f = rol resultado)
                   (jurisprudencia_cs (snd (iteracion (resultado, env) this)))) = 1
         \<and> distinct (map rol (jurisprudencia_cs (processResults xs this))))"
proof (intro conjI impI)
  show same: "jurisprudencia_cs (snd (iteracion (resultado, env) this)) = jurisprudencia_cs this"
    using assms(2) processSingleResult_presente[of resultado "sumar_procesada this" env]
    by (simp add: tabla_iteracion)
  assume "distinct (map rol (jurisprudencia_cs this))"
  with assms(2) show "length (filter (\<lambda>f. rol f = rol resultado)
                   (jurisprudencia_cs (snd (iteracion (resultado, env) this)))) = 1"
    unfolding same by (rule una_fila[rotated])
next
  assume "respuesta_select env = Select_data"
  with assms have hit:
    "checkDuplicateByRol (respuesta_select env) (jurisprudencia_cs this) (rol resultado)"
    by (simp add: checkDuplicateByRol_iff)
  note it = iteracion_hit[OF assms(1) hit]
  show "fst (iteracion (resultado, env) this) = Returned" by (simp add: it)
  show "duplicadas (stats (snd (iteracion (resultado, env) this))) = duplicadas (stats this) + 1"
    by (simp add: it contadores)
  show "errores (stats (snd (iteracion (resultado, env) this))) = errores (stats this)"
    by (simp add: it contadores)
  show "exitosas (stats (snd (iteracion (resultado, env) this))) = exitosas (stats this)"
    by (simp add: it contadores)
next
  assume "distinct (map rol (jurisprudencia_cs this))"
  then show "distinct (map rol (jurisprudencia_cs (processResults xs this)))"
    by (rule processResults_distinct)
qed

text \<open>The row of \<open>1234-2024\<close> is in the table and the query is answered.\<close>

theorem stored_rol_is_kept_witness:
  "jurisprudencia_cs (snd (iteracion (ej_resultado, ej_entorno) ej_scraper_con_fila)) = [ej_fila]
   \<and> fst (iteracion (ej_resultado, ej_entorno) ej_scraper_con_fila) = Returned
   \<and> duplicadas (stats (snd (iteracion (ej_resultado, ej_entorno) ej_scraper_con_fila))) = 1
   \<and> errores (stats (snd (iteracion (ej_resultado, ej_entorno) ej_scraper_con_fila))) = 0
   \<and> length (filter (\<lambda>f. rol f = rol ej_resultado)
        (jurisprudencia_cs (snd (iteracion (ej_resultado, ej_entorno) ej_scraper_con_fila)))) = 1"
proof -
  have h: "supabase ej_scraper_con_fila"
    "rol ej_resultado \<in> set (map rol (jurisprudencia_cs ej_scraper_con_fila))"
    "respuesta_select ej_entorno = Select_data"
    "distinct (map rol (jurisprudencia_cs ej_scraper_con_fila))"
    by (simp_all add: ej_defs)
  have z: "jurisprudencia_cs ej_scraper_con_fila = [ej_fila]"
    "duplicadas (stats ej_scraper_con_fila) = 0" "errores (stats ej_scraper_con_fila) = 0"
    by (simp_all add: ej_scraper_con_fila_def ej_scraper_def)
  have r: "rol ej_fila = rol ej_resultado"
    by (simp add: ej_fila_def ej_resultado_def)
  from stored_rol_is_kept[OF h(1,2), of ej_entorno "[]"] h(3,4) z r show ?thesis
    by simp
qed

text \<open>
  C1 as stated fails when the existence query fails: the row of \<open>1234-2024\<close> is in the
  table, the result is taken for a new one, the insert is rejected by the unique
  constraint and the turn ends with an error; \<open>duplicadas\<close> stays 0.
\<close>

theorem stored_rol_counterexample:
  "rol ej_resultado \<in> set (map rol (jurisprudencia_cs ej_scraper_con_fila))
   \<and> salidas [(ej_resultado, ej_entorno_sin_select)] ej_scraper_con_fila
       = [Thrown Unique_violation]
   \<and> stats (processResults [(ej_resultado, ej_entorno_sin_select)] ej_scraper_con_fila)
       = \<lparr>total_procesadas = 1, exitosas = 0, duplicadas = 0, errores = 1\<rparr>"
  by (simp add: ej_eval)

subsection \<open>C2: the existence check comes first\<close>

text \<open>
  C2, as the code has it. When the store client is set, the existence query on the
  \<open>rol\<close> is the first call made for every result, before the detail page and the
  embedding provider. Whenever the check reports a hit, nothing else is called (no
  detail page, no embedding, no insert), \<open>duplicadas\<close> grows by one, the table and
  \<open>exitosas\<close> stay, and the processing returns without error: the provider is never
  called for a result the check reports as stored.
\<close>

theorem existence_check_comes_first:
  assumes "supabase this"
  shows "(\<exists>resto. llamadas (snd (processSingleResult env resultado this))
            = llamadas this @ Select_rol (rol resultado) # resto)
    \<and> (checkDuplicateByRol (respuesta_select env) (jurisprudencia_cs this) (rol resultado) \<longrightarrow>
         fst (processSingleResult env resultado this) = Returned
         \<and> llamadas (snd (processSingleResult env resultado this))
             = llamadas this @ [Select_rol (rol resultado)]
         \<and> duplicadas (stats (snd (processSingleResult env resultado this)))
             = duplicadas (stats this) + 1
         \<and> exitosas (stats (snd (processSingleResult env resultado this))) = exitosas (stats this)
         \<and> jurisprudencia_cs (snd (processSingleResult env resultado this))
             = jurisprudencia_cs this)"
proof (intro conjI impI)
  show "\<exists>resto. llamadas (snd (processSingleResult env resultado this))
            = llamadas this @ Select_rol (rol resultado) # resto"
    using assms by (rule llamadas_processSingleResult)
next
  assume hit: "checkDuplicateByRol (respuesta_select env) (jurisprudencia_cs this) (rol resultado)"
  note p = processSingleResult_hit[OF assms hit]
  show "fst (processSingleResult env resultado this) = Returned" by (simp add: p)
  show "llamadas (snd (processSingleResult env resultado this))
          = llamadas this @ [Select_rol (rol resultado)]"
    by (simp add: p contadores)
  show "duplicadas (stats (snd (processSingleResult env resultado this)))
          = duplicadas (stats this) + 1"
    by (simp add: p contadores)
  show "exitosas (stats (snd (processSingleResult env resultado this))) = exitosas (stats this)"
    by (simp add: p contadores)
  show "jurisprudencia_cs (snd (processSingleResult env resultado this)) = jurisprudencia_cs this"
    by (simp add: p contadores)
qed

text \<open>The row of \<open>1234-2024\<close> is in the table and the query is answered: one call.\<close>

theorem existence_check_comes_first_witness:
  "fst (processSingleResult ej_entorno ej_resultado ej_scraper_con_fila) = Returned
   \<and> llamadas (snd (processSingleResult ej_entorno ej_resultado ej_scraper_con_fila))
       = [Select_rol ''1234-2024'']
   \<and> duplicadas (stats (snd (processSingleResult ej_entorno ej_resultado ej_scraper_con_fila))) = 1"
proof -
  have h: "supabase ej_scraper_con_fila"
    "checkDuplicateByRol (respuesta_select ej_entorno) (jurisprudencia_cs ej_scraper_con_fila)
       (rol ej_resultado)"
    by (simp_all add: ej_defs checkDuplicateByRol_def select_rol_def)
  have z: "llamadas ej_scraper_con_fila = []" "duplicadas (stats ej_scraper_con_fila) = 0"
    "rol ej_resultado = ''1234-2024''"
    by (simp_all add: ej_scraper_con_fila_def ej_scraper_def ej_resultado_def)
  from existence_check_comes_first[OF h(1), of ej_entorno ej_resultado] h(2) z show ?thesis
    by simp
qed

text \<open>
  C2 as stated fails when the existence query fails: the row of \<open>1234-2024\<close> is in the
  table, and the detail page is fetched and the embedding provider is called for it.
\<close>

theorem provider_called_for_stored_rol_counterexample:
  "rol ej_resultado \<in> set (map rol (jurisprudencia_cs ej_scraper_con_fila))
   \<and> take 3 (llamadas (snd (processSingleResult ej_entorno_sin_select ej_resultado
                             ej_scraper_con_fila)))
       = [Select_rol ''1234-2024'', Page_goto ''https://juris.pjud.cl/detalle/1'',
          Embeddings_create ''Perez con Fisco Primero: visto. Se rechaza.'']"
  by (simp add: ej_eval)

subsection \<open>C3: a unique violation at insert\<close>

text \<open>
  C3, as the code has it. When the insert of a result fails with the violation of the
  unique constraint on \<open>rol\<close>, \<open>saveSentenceToSupabase\<close> throws it as it throws every
  other error of the insert, and the \<open>catch\<close> of \<open>processResults\<close> counts it in
  \<open>errores\<close>, not in \<open>duplicadas\<close>. The table stays as it was. The violation is not
  fatal: the loop goes on and every later result is processed.
\<close>

theorem unique_violation_counts_as_error:
  assumes "fst (processSingleResult env resultado (sumar_procesada this)) = Thrown Unique_violation"
  shows "fst (iteracion (resultado, env) this) = Thrown Unique_violation
    \<and> errores (stats (snd (iteracion (resultado, env) this))) = errores (stats this) + 1
    \<and> duplicadas (stats (snd (iteracion (resultado, env) this))) = duplicadas (stats this)
    \<and> exitosas (stats (snd (iteracion (resultado, env) this))) = exitosas (stats this)
    \<and> jurisprudencia_cs (snd (iteracion (resultado, env) this)) = jurisprudencia_cs this
    \<and> salidas ((resultado, env) # resto) this
        = Thrown Unique_violation # salidas resto (snd (iteracion (resultado, env) this))
    \<and> total_procesadas (stats (processResults ((resultado, env) # resto) this))
        = total_procesadas (stats this) + 1 + length resto"
proof -
  define P where "P = snd (processSingleResult env resultado (sumar_procesada this))"
  have it: "iteracion (resultado, env) this = (Thrown Unique_violation, sumar_error P)"
    unfolding P_def by (rule iteracion_thrown[OF assms])
  have sP: "stats P = stats (sumar_procesada this)"
    unfolding P_def by (rule processSingleResult_thrown(1)[OF assms])
  have tP: "jurisprudencia_cs P = jurisprudencia_cs this"
    unfolding P_def using processSingleResult_thrown(2)[OF assms] by simp
  have st: "stats (sumar_error P)
      = (stats this)\<lparr>total_procesadas := total_procesadas (stats this) + 1,
                      errores := errores (stats this) + 1\<rparr>"
    by (simp add: sumar_error_def sP) (simp add: sumar_procesada_def)
  have "total_procesadas (stats (processResults ((resultado, env) # resto) this))
        = total_procesadas (stats this) + 1 + length resto"
    using total_processResults[of "(resultado, env) # resto" this] by simp
  then show ?thesis
    by (simp add: it st tP)
qed

text \<open>The row is in the table, the existence query fails, the insert is rejected.\<close>

theorem unique_violation_counts_as_error_witness:
  "fst (iteracion (ej_resultado, ej_entorno_sin_select) ej_scraper_con_fila)
     = Thrown Unique_violation
   \<and> errores (stats (snd (iteracion (ej_resultado, ej_entorno_sin_select) ej_scraper_con_fila))) = 1
   \<and> duplicadas (stats (snd (iteracion (ej_resultado, ej_entorno_sin_select) ej_scraper_con_fila)))
     = 0"
proof -
  have z: "errores (stats ej_scraper_con_fila) = 0" "duplicadas (stats ej_scraper_con_fila) = 0"
    by (simp_all add: ej_scraper_con_fila_def ej_scraper_def)
  from unique_violation_counts_as_error[OF ej_select_falla, of "[]"] z show ?thesis
    by simp
qed

text \<open>
  C3 as stated fails: at this input the insert fails with the unique violation, and the
  turn ends with the error thrown, \<open>errores\<close> at 1 and \<open>duplicadas\<close> at 0.
\<close>

theorem unique_violation_counterexample:
  "saveSentenceToSupabase (esquema ej_scraper_con_fila) (insert_falla ej_entorno_sin_select)
      (fst (enriquecer ej_scraper_con_fila ej_entorno_sin_select
             (extractSentenceDetails ej_entorno_sin_select ej_resultado)))
      (jurisprudencia_cs ej_scraper_con_fila)
     = Inl Unique_violation
   \<and> fst (iteracion (ej_resultado, ej_entorno_sin_select) ej_scraper_con_fila)
     = Thrown Unique_violation
   \<and> duplicadas (stats (snd (iteracion (ej_resultado, ej_entorno_sin_select) ej_scraper_con_fila)))
     = 0
   \<and> errores (stats (snd (iteracion (ej_resultado, ej_entorno_sin_select) ej_scraper_con_fila)))
     = 1"
  by (simp add: ej_eval)

subsection \<open>C4: errors stay with their record\<close>

text \<open>
  C4. For every sequence of results, \<open>processResults\<close> processes each of them: there is
  one outcome per result and \<open>total_procesadas\<close> grows by the length of the sequence. The
  error counter grows by one for each result whose processing threw and by nothing else.
  No error leaves the loop (\<open>processResults\<close> always returns the scraper), and the results
  after a failed one are processed from the state the earlier ones left, exactly as if the
  run had started there. The outcome of each result is the one of \<open>processSingleResult\<close>
  on it, in the state the results before it left, and the state after it is the one
  \<open>processSingleResult\<close> left, with the error counted when it threw.
\<close>

theorem processResults_isolates_errors:
  "length (salidas xs this) = length xs
   \<and> total_procesadas (stats (processResults xs this)) = total_procesadas (stats this) + length xs
   \<and> errores (stats (processResults xs this))
       = errores (stats this) + length (filter es_error (salidas xs this))
   \<and> processResults (xs @ ys) this = processResults ys (processResults xs this)
   \<and> salidas (xs @ ys) this = salidas xs this @ salidas ys (processResults xs this)
   \<and> (\<forall>i<length xs.
         salidas xs this ! i
           = fst (processSingleResult (snd (xs ! i)) (fst (xs ! i))
                   (sumar_procesada (processResults (take i xs) this)))
         \<and> processResults (take (Suc i) xs) this
           = (if es_error (salidas xs this ! i)
              then sumar_error
                     (snd (processSingleResult (snd (xs ! i)) (fst (xs ! i))
                            (sumar_procesada (processResults (take i xs) this))))
              else snd (processSingleResult (snd (xs ! i)) (fst (xs ! i))
                         (sumar_procesada (processResults (take i xs) this)))))"
proof -
  have "\<forall>i<length xs.
         salidas xs this ! i
           = fst (processSingleResult (snd (xs ! i)) (fst (xs ! i))
                   (sumar_procesada (processResults (take i xs) this)))
         \<and> processResults (take (Suc i) xs) this
           = (if es_error (salidas xs this ! i)
              then sumar_error
                     (snd (processSingleResult (snd (xs ! i)) (fst (xs ! i))
                            (sumar_procesada (processResults (take i xs) this))))
              else snd (processSingleResult (snd (xs ! i)) (fst (xs ! i))
                         (sumar_procesada (processResults (take i xs) this))))"
  proof (intro allI impI)
    fix i assume i: "i < length xs"
    have a: "salidas xs this ! i = fst (iteracion (xs ! i) (processResults (take i xs) this))"
      using i by (rule salidas_nth)
    have b: "processResults (take (Suc i) xs) this
               = snd (iteracion (xs ! i) (processResults (take i xs) this))"
      using i by (rule processResults_take_Suc)
    show "salidas xs this ! i
           = fst (processSingleResult (snd (xs ! i)) (fst (xs ! i))
                   (sumar_procesada (processResults (take i xs) this)))
         \<and> processResults (take (Suc i) xs) this
           = (if es_error (salidas xs this ! i)
              then sumar_error
                     (snd (processSingleResult (snd (xs ! i)) (fst (xs ! i))
                            (sumar_procesada (processResults (take i xs) this))))
              else snd (processSingleResult (snd (xs ! i)) (fst (xs ! i))
                         (sumar_procesada (processResults (take i xs) this))))"
      unfolding a b
      using snd_iteracion[of "xs ! i" "processResults (take i xs) this"]
      by (simp add: fst_iteracion)
  qed
  then show ?thesis
    by (simp add: length_salidas total_processResults errores_processResults
        processResults_append salidas_append)
qed

text \<open>The run of three results: stored, rejected by the store, duplicate.\<close>

theorem processResults_isolates_errors_witness:
  "salidas ej_corrida ej_scraper = [Returned, Thrown Other_store_error, Returned]
   \<and> total_procesadas (stats (processResults ej_corrida ej_scraper)) = 3
   \<and> errores (stats (processResults ej_corrida ej_scraper)) = 1
   \<and> fst (processSingleResult (ej_entorno\<lparr>insert_falla := True\<rparr>) (ej_resultado\<lparr>rol := ''77-2024''\<rparr>)
            (sumar_procesada (processResults [(ej_resultado, ej_entorno)] ej_scraper)))
       = Thrown Other_store_error"
proof -
  have l: "length ej_corrida = 3" by (simp add: ej_corrida_def)
  have k: "ej_corrida ! Suc 0 = (ej_resultado\<lparr>rol := ''77-2024''\<rparr>, ej_entorno\<lparr>insert_falla := True\<rparr>)"
    "take (Suc 0) ej_corrida = [(ej_resultado, ej_entorno)]"
    by (simp_all add: ej_corrida_def)
  have z: "total_procesadas (stats ej_scraper) = 0" "errores (stats ej_scraper) = 0"
    by (simp_all add: ej_scraper_def)
  from processResults_isolates_errors[of ej_corrida ej_scraper "[]"]
  have "total_procesadas (stats (processResults ej_corrida ej_scraper))
          = total_procesadas (stats ej_scraper) + length ej_corrida"
   and "errores (stats (processResults ej_corrida ej_scraper))
          = errores (stats ej_scraper) + length (filter es_error (salidas ej_corrida ej_scraper))"
   and "\<forall>i<length ej_corrida.
          salidas ej_corrida ej_scraper ! i
            = fst (processSingleResult (snd (ej_corrida ! i)) (fst (ej_corrida ! i))
                    (sumar_procesada (processResults (take i ej_corrida) ej_scraper)))"
    by blast+
  note t = this
  from t(3) l
  have "salidas ej_corrida ej_scraper ! Suc 0
            = fst (processSingleResult (snd (ej_corrida ! Suc 0)) (fst (ej_corrida ! Suc 0))
                    (sumar_procesada (processResults (take (Suc 0) ej_corrida) ej_scraper)))"
    by simp
  then have "fst (processSingleResult (ej_entorno\<lparr>insert_falla := True\<rparr>)
                   (ej_resultado\<lparr>rol := ''77-2024''\<rparr>)
                   (sumar_procesada (processResults [(ej_resultado, ej_entorno)] ej_scraper)))
               = salidas ej_corrida ej_scraper ! Suc 0"
    by (simp only: k fst_conv snd_conv)
  also have "\<dots> = Thrown Other_store_error"
    by (simp add: ej_corrida_salidas)
  finally have link: "fst (processSingleResult (ej_entorno\<lparr>insert_falla := True\<rparr>)
                   (ej_resultado\<lparr>rol := ''77-2024''\<rparr>)
                   (sumar_procesada (processResults [(ej_resultado, ej_entorno)] ej_scraper)))
               = Thrown Other_store_error" .
  from t(1,2) l z ej_corrida_salidas
  have "salidas ej_corrida ej_scraper = [Returned, Thrown Other_store_error, Returned]
   \<and> total_procesadas (stats (processResults ej_corrida ej_scraper)) = 3
   \<and> errores (stats (processResults ej_corrida ej_scraper)) = 1"
    by (simp add: es_error_def)
  with link show ?thesis by blast
qed

subsection \<open>C5: the content hash the table keeps\<close>

text \<open>
  C5. The content hash is the SHA-256 digest, 64 hex characters, of \<open>rol\<close>,
  \<open>texto_completo\<close> and \<open>considerandos\<close> concatenated in this order; being a function of
  that text, it is the same for the same input. The sentence \<open>extractSentenceDetails\<close>
  builds carries the digest of its own fields, and so does the row handed to the insert,
  after the embedding stage. An insert that succeeds adds that row at the end of the
  table, with the hash and the three fields as they were handed over; so every row a run
  adds to the table, and every row a run hands to the insert, has a hash consistent with
  its text. The table of the schema file, whose trigger would compute another digest,
  rejects every row of the scraper, so its trigger never changes a hash the scraper
  computed.
\<close>

theorem content_hash_is_kept:
  "length (sha256_hex m) = 64
   \<and> set (sha256_hex m) \<subseteq> set ''0123456789abcdef''
   \<and> hash_contenido (extractSentenceDetails env resultado)
       = sha256_hex (rol resultado @ texto_completo (extractSentenceDetails env resultado)
                       @ considerandos (extractSentenceDetails env resultado))
   \<and> hash_consistente (fst (enriquecer this env (extractSentenceDetails env resultado)))
   \<and> (saveSentenceToSupabase t falla s tabla = Inr nueva \<longrightarrow>
        butlast nueva = tabla
        \<and> hash_contenido (last nueva) = hash_contenido s
        \<and> rol (last nueva) = rol s
        \<and> texto_completo (last nueva) = texto_completo s
        \<and> considerandos (last nueva) = considerandos s)
   \<and> (list_all hash_consistente (jurisprudencia_cs this) \<longrightarrow>
        list_all hash_consistente (jurisprudencia_cs (processResults xs this)))
   \<and> (list_all entrega_consistente (llamadas this) \<longrightarrow>
        list_all entrega_consistente (llamadas (processResults xs this)))
   \<and> saveSentenceToSupabase Tabla_schema falla s tabla = Inl Other_store_error"
proof -
  have "hash_contenido (extractSentenceDetails env resultado)
       = sha256_hex (rol resultado @ texto_completo (extractSentenceDetails env resultado)
                       @ considerandos (extractSentenceDetails env resultado))"
    using hash_contenido_extractSentenceDetails[of env resultado] by simp
  moreover have "saveSentenceToSupabase t falla s tabla = Inr nueva \<longrightarrow>
        butlast nueva = tabla
        \<and> hash_contenido (last nueva) = hash_contenido s
        \<and> rol (last nueva) = rol s
        \<and> texto_completo (last nueva) = texto_completo s
        \<and> considerandos (last nueva) = considerandos s"
    by (auto simp: saveSentenceToSupabase_insert dest!: insert_fila_Inr)
  moreover have "saveSentenceToSupabase Tabla_schema falla s tabla = Inl Other_store_error"
    by (simp add: saveSentenceToSupabase_insert insert_fila_schema)
  ultimately show ?thesis
    using tabla_consistente_processResults[of this xs] entregas_processResults[of this xs]
    using set_sha256_hex[of m]
    by (simp add: length_sha256_hex hash_consistente_entregada del: set_simps)
qed

text \<open>
  The example result, stored by a run that starts from the empty table of the README: the
  table keeps \<open>d4b48d63...\<close>, the digest of
  \<open>1234-2024Se rechaza el recurso.Primero: visto.\<close>; on the table of the schema file the
  insert is rejected and the table stays empty.
\<close>

theorem content_hash_is_kept_witness:
  "map hash_contenido (jurisprudencia_cs (processResults [(ej_resultado, ej_entorno)] ej_scraper))
     = [''d4b48d636f410d3de10b7585d1aa9f3a19c404eb37dd55a63c1696b7f879ecf7'']
   \<and> jurisprudencia_cs (processResults [(ej_resultado, ej_entorno)] ej_scraper_schema) = []"
proof -
  let ?tabla = "jurisprudencia_cs (processResults [(ej_resultado, ej_entorno)] ej_scraper)"
  have "list_all hash_consistente (jurisprudencia_cs ej_scraper)"
    by (simp add: ej_scraper_def)
  with content_hash_is_kept[where this = ej_scraper and xs = "[(ej_resultado, ej_entorno)]"]
  have inv: "list_all hash_consistente ?tabla"
    by blast
  from ej_tabla_nueva obtain f where f: "?tabla = [f]" "rol f = ''1234-2024''"
    "texto_completo f = ''Se rechaza el recurso.''" "considerandos f = ''Primero: visto.''"
    by (auto simp: map_eq_Cons_conv)
  from inv f have "hash_contenido f = sha256_hex ''1234-2024Se rechaza el recurso.Primero: visto.''"
    by (simp add: hash_consistente_def)
  with f(1) ej_tabla_schema sha256_hex_ej_contenido show ?thesis
    by simp
qed

subsection \<open>C6: an empty \<open>texto_completo\<close>\<close>

text \<open>
  C6, as the code has it. \<open>saveSentenceToSupabase\<close> does not look at \<open>texto_completo\<close>:
  a sentence whose \<open>texto_completo\<close> is empty is inserted into the table of the README
  when its \<open>rol\<close> is new and the store accepts the insert, and the last row of the table
  is then a row with that \<open>rol\<close> and an empty \<open>texto_completo\<close>. An empty text is never
  the reason of a rejection: when the insert of the row with its text emptied fails,
  the insert of the row itself fails with the same error. Every result without a link
  to its detail page, and every result whose detail page could not be read, reaches the
  insert with an empty \<open>texto_completo\<close>.
\<close>

theorem empty_texto_completo_is_inserted:
  "(texto_completo s = [] \<and> \<not> falla \<and> rol s \<notin> set (map rol tabla) \<longrightarrow>
      (\<exists>nueva. saveSentenceToSupabase Tabla_readme falla s tabla = Inr nueva
         \<and> butlast nueva = tabla
         \<and> texto_completo (last nueva) = []
         \<and> rol (last nueva) = rol s))
   \<and> (saveSentenceToSupabase t falla (s\<lparr>texto_completo := []\<rparr>) tabla = Inl e \<longrightarrow>
        saveSentenceToSupabase t falla s tabla = Inl e)
   \<and> (enlace resultado = [] \<or> pagina env = None \<longrightarrow>
        texto_completo (extractSentenceDetails env resultado) = []
        \<and> texto_completo (fst (enriquecer this env (extractSentenceDetails env resultado))) = [])"
proof -
  have "saveSentenceToSupabase t falla (s\<lparr>texto_completo := []\<rparr>) tabla = Inl e \<longrightarrow>
        saveSentenceToSupabase t falla s tabla = Inl e"
    by (cases t)
      (auto simp: saveSentenceToSupabase_insert insert_fila_readme insert_fila_schema
        split: if_splits)
  moreover have "enlace resultado = [] \<or> pagina env = None \<longrightarrow>
        texto_completo (extractSentenceDetails env resultado) = []
        \<and> texto_completo (fst (enriquecer this env (extractSentenceDetails env resultado))) = []"
    by (auto simp: extractSentenceDetails_def enriquecer_def generateEmbeddings_def Let_def
        split: option.splits)
  ultimately show ?thesis
    by (simp add: saveSentenceToSupabase_insert insert_fila_readme)
qed

text \<open>The example result without link, inserted into the empty table of the README.\<close>

theorem empty_texto_completo_is_inserted_witness:
  "texto_completo (extractSentenceDetails ej_entorno ej_resultado_sin_enlace) = []
   \<and> (\<exists>nueva. saveSentenceToSupabase Tabla_readme False
                  (extractSentenceDetails ej_entorno ej_resultado_sin_enlace) [] = Inr nueva
         \<and> butlast nueva = []
         \<and> texto_completo (last nueva) = []
         \<and> rol (last nueva) = ''1234-2024'')"
proof -
  let ?s = "extractSentenceDetails ej_entorno ej_resultado_sin_enlace"
  note t = empty_texto_completo_is_inserted
             [where s = ?s and falla = False and tabla = "[]"
                and resultado = ej_resultado_sin_enlace and env = ej_entorno]
  have e: "enlace ej_resultado_sin_enlace = []"
    by (simp add: ej_defs)
  with t have a: "texto_completo ?s = []" by blast
  have r: "rol ?s = ''1234-2024''"
    by (simp add: ej_defs)
  from t a have "\<exists>nueva. saveSentenceToSupabase Tabla_readme False ?s [] = Inr nueva
         \<and> butlast nueva = []
         \<and> texto_completo (last nueva) = []
         \<and> rol (last nueva) = rol ?s"
    by simp
  with a r show ?thesis by simp
qed

text \<open>
  C6 as stated fails: the result without link is stored, with an empty \<open>texto_completo\<close>,
  and counted in \<open>exitosas\<close>.
\<close>

theorem empty_texto_completo_counterexample:
  "fst (processSingleResult ej_entorno ej_resultado_sin_enlace ej_scraper) = Returned
   \<and> map texto_completo
       (jurisprudencia_cs (snd (processSingleResult ej_entorno ej_resultado_sin_enlace ej_scraper)))
     = [[]]
   \<and> exitosas (stats (snd (processSingleResult ej_entorno ej_resultado_sin_enlace ej_scraper))) = 1"
  by (simp add: ej_eval)

subsection \<open>C7: date normalisation\<close>

text \<open>
  C7, as the code has it. \<open>processFecha\<close> tries the formats in their order and the first
  one that parses the whole string to a valid date wins: the result is the ISO timestamp
  of that date. If no format parses the string, the result is the string itself. The
  result is a string in both cases, and nothing else is set: there is no
  \<open>dateUnparsed\<close> flag. The function is total, so it never throws. In a process whose time
  zone is UTC, \<open>15/03/2024\<close> and \<open>2024-03-15\<close> both give \<open>2024-03-15T00:00:00.000Z\<close>;
  \<open>not-a-date\<close> is returned as it is.
\<close>

theorem processFecha_first_format_wins:
  "(\<forall>i<length formatos. moment_strict (formatos ! i) s = Some d \<and>
        (\<forall>j<i. moment_strict (formatos ! j) s = None) \<longrightarrow> processFecha render s = render d)
   \<and> ((\<forall>f\<in>set formatos. moment_strict f s = None) \<longrightarrow> processFecha render s = s)
   \<and> processFecha toISOString_utc ''15/03/2024'' = ''2024-03-15T00:00:00.000Z''
   \<and> processFecha toISOString_utc ''2024-03-15'' = ''2024-03-15T00:00:00.000Z''
   \<and> processFecha render ''not-a-date'' = ''not-a-date''"
proof (intro conjI allI impI)
  fix i
  assume "i < length formatos"
     and "moment_strict (formatos ! i) s = Some d \<and> (\<forall>j<i. moment_strict (formatos ! j) s = None)"
  then show "processFecha render s = render d"
    unfolding processFecha_def by (intro probar_formatos_first[of i]) auto
next
  assume "\<forall>f\<in>set formatos. moment_strict f s = None"
  then show "processFecha render s = s"
    unfolding processFecha_def by (rule probar_formatos_none)
next
  show "processFecha toISOString_utc ''15/03/2024'' = ''2024-03-15T00:00:00.000Z''"
    by (simp add: date_eval)
next
  show "processFecha toISOString_utc ''2024-03-15'' = ''2024-03-15T00:00:00.000Z''"
    by (simp add: date_eval)
next
  show "processFecha render ''not-a-date'' = ''not-a-date''"
    by (simp add: date_eval)
qed

text \<open>\<open>29-02-24\<close> is parsed by the fifth format only; \<open>31/04/2024\<close> by none.\<close>

theorem processFecha_first_format_wins_witness:
  "processFecha toISOString_utc ''29-02-24'' = ''2024-02-29T00:00:00.000Z''
   \<and> processFecha toISOString_utc ''31/04/2024'' = ''31/04/2024''"
proof -
  note t = processFecha_first_format_wins
  have len: "4 < length formatos" by (simp add: formatos_def)
  from t[of "''29-02-24''" "\<lparr>anio = 2024, mes = 2, dia = 29\<rparr>" toISOString_utc]
  have "\<forall>i<length formatos.
          moment_strict (formatos ! i) ''29-02-24'' = Some \<lparr>anio = 2024, mes = 2, dia = 29\<rparr> \<and>
          (\<forall>j<i. moment_strict (formatos ! j) ''29-02-24'' = None) \<longrightarrow>
          processFecha toISOString_utc ''29-02-24''
            = toISOString_utc \<lparr>anio = 2024, mes = 2, dia = 29\<rparr>"
    by (rule conjunct1)
  with len ex_29_02_24 ex_29_02_24_earlier
  have a: "processFecha toISOString_utc ''29-02-24''
             = toISOString_utc \<lparr>anio = 2024, mes = 2, dia = 29\<rparr>"
    by blast
  have "\<forall>f\<in>set formatos. moment_strict f ''31/04/2024'' = None"
    by (simp add: date_eval)
  with t[of "''31/04/2024''" "\<lparr>anio = 2024, mes = 4, dia = 31\<rparr>" toISOString_utc]
  have b: "processFecha toISOString_utc ''31/04/2024'' = ''31/04/2024''"
    by blast
  from a b show ?thesis
    by (simp add: toISOString_utc_def zeroFill_def show_nat.simps digit_char_def replicate_numeral_unfold)
qed

text \<open>
  C7 as stated fails: a string that the first format parses and a string that no format
  parses give the same result, and the same sentence, so nothing in the sentence says
  whether the date was parsed.
\<close>

theorem processFecha_no_flag_counterexample:
  "moment_strict (formatos ! 0) ''15/03/2024'' = Some \<lparr>anio = 2024, mes = 3, dia = 15\<rparr>
   \<and> list_all (\<lambda>f. moment_strict f ''2024-03-15T00:00:00.000Z'' = None) formatos
   \<and> processFecha toISOString_utc ''15/03/2024''
       = processFecha toISOString_utc ''2024-03-15T00:00:00.000Z''
   \<and> extractSentenceDetails (ej_entorno\<lparr>pagina := None\<rparr>) (ej_resultado\<lparr>fecha := ''15/03/2024''\<rparr>)
       = extractSentenceDetails (ej_entorno\<lparr>pagina := None\<rparr>)
           (ej_resultado\<lparr>fecha := ''2024-03-15T00:00:00.000Z''\<rparr>)"
  by (simp add: date_eval extractSentenceDetails_def ej_defs)

subsection \<open>C8: an element without \<open>rol\<close>\<close>

text \<open>
  C8, as the code has it. An element of the page that lacks a \<open>rol\<close> (absent or empty)
  never fails: when it has a \<open>fecha\<close> or a \<open>tribunal\<close> it is kept and goes down the
  pipeline under the placeholder key \<open>ROL-<Date.now()>-<index>\<close>; when it has neither it
  is dropped without an error. Every result of the page has a non-empty \<open>rol\<close>.
\<close>

theorem missing_rol_gets_placeholder_or_is_dropped:
  assumes "i < length es" and "\<not> truthy (el_rol (es ! i))"
  shows "(truthy (el_fecha (es ! i)) \<or> truthy (el_tribunal (es ! i)) \<longrightarrow>
            item now i (es ! i) \<in> set (extractResultsFromPage now es)
            \<and> rol (item now i (es ! i)) = ''ROL-'' @ show_nat (now i) @ ''-'' @ show_nat i)
    \<and> (\<not> truthy (el_fecha (es ! i)) \<and> \<not> truthy (el_tribunal (es ! i)) \<longrightarrow>
            i \<notin> index ` set (extractResultsFromPage now es))
    \<and> [] \<notin> rol ` set (extractResultsFromPage now es)"
proof (intro conjI impI)
  assume "truthy (el_fecha (es ! i)) \<or> truthy (el_tribunal (es ! i))"
  then have "se_conserva (es ! i)" by (auto simp: se_conserva_def)
  with assms(1) show "item now i (es ! i) \<in> set (extractResultsFromPage now es)"
    unfolding set_extractResultsFromPage by blast
  from assms(2) show "rol (item now i (es ! i)) = ''ROL-'' @ show_nat (now i) @ ''-'' @ show_nat i"
    by (rule rol_item_sin_rol)
next
  assume "\<not> truthy (el_fecha (es ! i)) \<and> \<not> truthy (el_tribunal (es ! i))"
  with assms(2) have "\<not> se_conserva (es ! i)" by (simp add: se_conserva_def)
  then show "i \<notin> index ` set (extractResultsFromPage now es)"
    unfolding set_extractResultsFromPage by auto
next
  show "[] \<notin> rol ` set (extractResultsFromPage now es)"
    unfolding set_extractResultsFromPage by (auto simp: rol_item_nonempty)
qed

text \<open>A page of two elements: only a date, and nothing usable.\<close>

theorem missing_rol_gets_placeholder_or_is_dropped_witness:
  "rol (item (\<lambda>i. 1700000000000 + i) 0 ej_elemento_sin_rol) = ''ROL-1700000000000-0''
   \<and> item (\<lambda>i. 1700000000000 + i) 0 ej_elemento_sin_rol
       \<in> set (extractResultsFromPage (\<lambda>i. 1700000000000 + i)
               [ej_elemento_sin_rol, ej_elemento_vacio])
   \<and> 1 \<notin> index ` set (extractResultsFromPage (\<lambda>i. 1700000000000 + i)
                        [ej_elemento_sin_rol, ej_elemento_vacio])"
proof -
  let ?now = "\<lambda>i::nat. 1700000000000 + i"
  let ?es = "[ej_elemento_sin_rol, ej_elemento_vacio]"
  have a: "0 < length ?es" "\<not> truthy (el_rol (?es ! 0))"
    "truthy (el_fecha (?es ! 0)) \<or> truthy (el_tribunal (?es ! 0))"
    by (simp_all add: ej_defs truthy_def)
  have b: "1 < length ?es" "\<not> truthy (el_rol (?es ! 1))"
    "\<not> truthy (el_fecha (?es ! 1)) \<and> \<not> truthy (el_tribunal (?es ! 1))"
    by (simp_all add: ej_defs truthy_def)
  from missing_rol_gets_placeholder_or_is_dropped[OF a(1,2), of ?now] a(3)
  have "item ?now 0 (?es ! 0) \<in> set (extractResultsFromPage ?now ?es)
        \<and> rol (item ?now 0 (?es ! 0)) = ''ROL-'' @ show_nat (?now 0) @ ''-'' @ show_nat 0"
    by blast
  moreover from missing_rol_gets_placeholder_or_is_dropped[OF b(1,2), of ?now] b(3)
  have "1 \<notin> index ` set (extractResultsFromPage ?now ?es)"
    by blast
  ultimately show ?thesis
    by (simp add: show_nat.simps digit_char_def)
qed

text \<open>
  C8 as stated fails: the element without \<open>rol\<close> becomes a result, with a placeholder
  key.
\<close>

theorem missing_rol_counterexample:
  "el_rol ej_elemento_sin_rol = None
   \<and> extractResultsFromPage (\<lambda>i. 1700000000000 + i) [ej_elemento_sin_rol]
       = [\<lparr>rol = ''ROL-1700000000000-0'', fecha = ''15/03/2024'', tribunal = [],
            caratulado = [], enlace = [], index = 0\<rparr>]"
  by (simp add: extractResultsFromPage_def item_def se_conserva_def truthy_def js_or_def
      ej_defs show_nat.simps digit_char_def)

subsection \<open>C9: one embedding for the record\<close>

text \<open>
  C9, as the code has it. \<open>generateEmbeddings\<close> computes a single embedding, from one
  text: \<open>caratulado\<close>, \<open>considerandos\<close> and \<open>resolucion\<close> joined by spaces and trimmed.
  When that text is not empty it is sent to the provider, in one call, and the vector
  the provider answers becomes the \<open>embeddings\<close> of the sentence; when the text is empty
  no call is made. When the call fails the sentence stays as it was, without a vector.
  The stage changes nothing but \<open>embeddings\<close>. It runs when embeddings are enabled and
  the provider client is set. Whatever the provider answers, a result that is not a
  duplicate is handed to the insert.
\<close>

theorem one_combined_embedding_never_aborts:
  "set (snd (generateEmbeddings create s)) \<subseteq> {Embeddings_create (textoParaEmbedding s)}
   \<and> length (snd (generateEmbeddings create s)) \<le> 1
   \<and> (textoParaEmbedding s \<noteq> [] \<and> create (textoParaEmbedding s) = Some v \<longrightarrow>
        generateEmbeddings create s
          = (s\<lparr>embeddings := Some v\<rparr>, [Embeddings_create (textoParaEmbedding s)]))
   \<and> (textoParaEmbedding s \<noteq> [] \<longrightarrow>
        snd (generateEmbeddings create s) = [Embeddings_create (textoParaEmbedding s)])
   \<and> (enableEmbeddings this \<and> openai this \<longrightarrow>
        enriquecer this env s = generateEmbeddings (embeddings_create env) s)
   \<and> (textoParaEmbedding s = [] \<longrightarrow> generateEmbeddings create s = (s, []))
   \<and> (create (textoParaEmbedding s) = None \<longrightarrow> fst (generateEmbeddings create s) = s)
   \<and> (fst (generateEmbeddings create s))\<lparr>embeddings := embeddings s\<rparr> = s
   \<and> (supabase this \<and>
       \<not> checkDuplicateByRol (respuesta_select env) (jurisprudencia_cs this) (rol resultado) \<longrightarrow>
        last (llamadas (snd (processSingleResult env resultado this)))
          = Insert_fila (fst (enriquecer this env (extractSentenceDetails env resultado))))"
proof -
  have "supabase this \<and>
       \<not> checkDuplicateByRol (respuesta_select env) (jurisprudencia_cs this) (rol resultado) \<longrightarrow>
        last (llamadas (snd (processSingleResult env resultado this)))
          = Insert_fila (fst (enriquecer this env (extractSentenceDetails env resultado)))"
    by (simp add: processSingleResult_miss(1))
  moreover have "set (snd (generateEmbeddings create s)) \<subseteq> {Embeddings_create (textoParaEmbedding s)}
   \<and> length (snd (generateEmbeddings create s)) \<le> 1
   \<and> (textoParaEmbedding s \<noteq> [] \<and> create (textoParaEmbedding s) = Some v \<longrightarrow>
        generateEmbeddings create s
          = (s\<lparr>embeddings := Some v\<rparr>, [Embeddings_create (textoParaEmbedding s)]))
   \<and> (textoParaEmbedding s \<noteq> [] \<longrightarrow>
        snd (generateEmbeddings create s) = [Embeddings_create (textoParaEmbedding s)])
   \<and> (textoParaEmbedding s = [] \<longrightarrow> generateEmbeddings create s = (s, []))
   \<and> (create (textoParaEmbedding s) = None \<longrightarrow> fst (generateEmbeddings create s) = s)
   \<and> (fst (generateEmbeddings create s))\<lparr>embeddings := embeddings s\<rparr> = s"
    by (auto simp: generateEmbeddings_def split: option.splits)
  moreover have "enableEmbeddings this \<and> openai this \<longrightarrow>
        enriquecer this env s = generateEmbeddings (embeddings_create env) s"
    by (simp add: enriquecer_def)
  ultimately show ?thesis by blast
qed

text \<open>
  The example provider answers on the combined text of the example result, and the vector
  it answers is the one of the sentence; the provider that fails on the title fails on
  the combined text, and the sentence is inserted as extracted.
\<close>

theorem one_combined_embedding_never_aborts_witness:
  "generateEmbeddings (embeddings_create ej_entorno) (extractSentenceDetails ej_entorno ej_resultado)
     = ((extractSentenceDetails ej_entorno ej_resultado)
          \<lparr>embeddings := Some (Vector_de ''Perez con Fisco Primero: visto. Se rechaza.'')\<rparr>,
        [Embeddings_create ''Perez con Fisco Primero: visto. Se rechaza.''])
   \<and> fst (generateEmbeddings (embeddings_create ej_entorno_titulo_falla)
         (extractSentenceDetails ej_entorno_titulo_falla ej_resultado))
     = extractSentenceDetails ej_entorno_titulo_falla ej_resultado
   \<and> last (llamadas (snd (processSingleResult ej_entorno_titulo_falla ej_resultado ej_scraper)))
     = Insert_fila (extractSentenceDetails ej_entorno_titulo_falla ej_resultado)"
proof -
  let ?s = "extractSentenceDetails ej_entorno_titulo_falla ej_resultado"
  let ?p = "extractSentenceDetails ej_entorno ej_resultado"
  let ?v = "Vector_de ''Perez con Fisco Primero: visto. Se rechaza.''"
  note t = one_combined_embedding_never_aborts
    [where create = "embeddings_create ej_entorno_titulo_falla" and s = ?s
       and this = ej_scraper and env = ej_entorno_titulo_falla and resultado = ej_resultado]
  note u = one_combined_embedding_never_aborts
    [where create = "embeddings_create ej_entorno" and s = ?p and v = ?v]
  have p: "textoParaEmbedding ?p \<noteq> [] \<and> embeddings_create ej_entorno (textoParaEmbedding ?p) = Some ?v"
    by (simp add: ej_texto_embedding_entorno) (simp add: ej_entorno_def)
  from u p have "generateEmbeddings (embeddings_create ej_entorno) ?p
          = (?p\<lparr>embeddings := Some ?v\<rparr>, [Embeddings_create (textoParaEmbedding ?p)])"
    by blast
  then have pos: "generateEmbeddings (embeddings_create ej_entorno) ?p
          = (?p\<lparr>embeddings := Some ?v\<rparr>,
             [Embeddings_create ''Perez con Fisco Primero: visto. Se rechaza.''])"
    by (simp only: ej_texto_embedding_entorno)
  have n: "embeddings_create ej_entorno_titulo_falla (textoParaEmbedding ?s) = None"
    by (simp add: ej_texto_embedding) (simp add: ej_entorno_titulo_falla_def)
  have c: "supabase ej_scraper \<and>
       \<not> checkDuplicateByRol (respuesta_select ej_entorno_titulo_falla)
           (jurisprudencia_cs ej_scraper) (rol ej_resultado)"
    by (simp add: ej_defs checkDuplicateByRol_def select_rol_def)
  from t n have a: "fst (generateEmbeddings (embeddings_create ej_entorno_titulo_falla) ?s) = ?s"
    by blast
  from t c have "last (llamadas (snd (processSingleResult ej_entorno_titulo_falla ej_resultado
                   ej_scraper)))
     = Insert_fila (fst (enriquecer ej_scraper ej_entorno_titulo_falla ?s))"
    by blast
  moreover have "enriquecer ej_scraper ej_entorno_titulo_falla ?s
      = generateEmbeddings (embeddings_create ej_entorno_titulo_falla) ?s"
    by (simp add: enriquecer_def ej_scraper_def)
  ultimately show ?thesis using a pos by simp
qed

text \<open>
  C9 as stated fails: with a provider that fails on the title and on every text that
  starts with it, and answers on every other text (the content among them), the only
  call made is on the combined text, and the stored row has no vector at all.
\<close>

theorem independent_views_counterexample:
  "embeddings_create ej_entorno_titulo_falla (caratulado ej_resultado) = None
   \<and> embeddings_create ej_entorno_titulo_falla (d_texto_completo ej_detalles)
       = Some (Vector_de (d_texto_completo ej_detalles))
   \<and> embeddings_create ej_entorno_titulo_falla (d_considerandos ej_detalles)
       = Some (Vector_de (d_considerandos ej_detalles))
   \<and> fst (processSingleResult ej_entorno_titulo_falla ej_resultado ej_scraper) = Returned
   \<and> map embeddings
       (jurisprudencia_cs (snd (processSingleResult ej_entorno_titulo_falla ej_resultado ej_scraper)))
     = [None]
   \<and> [t. Embeddings_create t \<leftarrow>
          llamadas (snd (processSingleResult ej_entorno_titulo_falla ej_resultado ej_scraper))]
     = [''Perez con Fisco Primero: visto. Se rechaza.'']"
  by (simp add: ej_eval)

subsection \<open>C10: a failed existence query\<close>

text \<open>
  C10. When the existence query fails (the reply carries an error, or the call throws),
  \<open>checkDuplicateByRol\<close> is false whatever the table holds; it returns a boolean in every
  case, so no error leaves it. The result is then not counted as a duplicate, and the
  processing goes on: after the query come the detail page, the embedding stage and the
  insert attempt.
\<close>

theorem failed_existence_query_means_not_stored:
  assumes "respuesta_select env \<noteq> Select_data"
  shows "\<not> checkDuplicateByRol (respuesta_select env) tabla r
    \<and> (supabase this \<longrightarrow>
         duplicadas (stats (snd (processSingleResult env resultado this))) = duplicadas (stats this)
         \<and> llamadas (snd (processSingleResult env resultado this))
             = llamadas this @ [Select_rol (rol resultado)] @ detalle_llamadas resultado
                 @ snd (enriquecer this env (extractSentenceDetails env resultado))
                 @ [Insert_fila (fst (enriquecer this env (extractSentenceDetails env resultado)))])"
proof -
  from assms have no: "\<And>tabla r. \<not> checkDuplicateByRol (respuesta_select env) tabla r"
    by (simp add: checkDuplicateByRol_iff)
  show ?thesis
    using no processSingleResult_miss[OF _ no, of this resultado] by simp
qed
text \<open>The existence query fails although the row is in the table.\<close>

theorem failed_existence_query_means_not_stored_witness:
  "\<not> checkDuplicateByRol (respuesta_select ej_entorno_sin_select)
       (jurisprudencia_cs ej_scraper_con_fila) (rol ej_resultado)
   \<and> duplicadas (stats (snd (processSingleResult ej_entorno_sin_select ej_resultado
                              ej_scraper_con_fila))) = 0
   \<and> last (llamadas (snd (processSingleResult ej_entorno_sin_select ej_resultado
                            ej_scraper_con_fila)))
       = Insert_fila (fst (enriquecer ej_scraper_con_fila ej_entorno_sin_select
                            (extractSentenceDetails ej_entorno_sin_select ej_resultado)))"
proof -
  have h: "respuesta_select ej_entorno_sin_select \<noteq> Select_data"
    by (simp add: ej_defs)
  have z: "supabase ej_scraper_con_fila" "duplicadas (stats ej_scraper_con_fila) = 0"
    by (simp_all add: ej_scraper_con_fila_def ej_scraper_def)
  from failed_existence_query_means_not_stored
         [OF h, of "jurisprudencia_cs ej_scraper_con_fila" "rol ej_resultado"
            ej_scraper_con_fila ej_resultado] z
  show ?thesis by simp
qed

end
